theory Spec2Isabelle
  imports Main
begin

section \<open>The GRU unit operator: one time step, forward and backward\<close>

text \<open>
  A shallow embedding of \<^verbatim>\<open>paddle/operators/gru_unit_op.h\<close>: the kernels
  \<^verbatim>\<open>GRUUnitKernel::Compute\<close> and \<^verbatim>\<open>GRUUnitGradKernel::Compute\<close>
  with their activation dispatchers.

  The element type \<^verbatim>\<open>T\<close> of the kernels (\<^verbatim>\<open>float\<close> or \<^verbatim>\<open>double\<close>)
  is modelled by an arbitrary commutative ring with unit: the development is about which
  memory cells are read and written and which expression is stored where, not about rounding.
  The activation tags are integers, as the attribute is. Dimensions, offsets and strides are
  natural numbers that must fit the 32-bit \<^verbatim>\<open>int\<close> the kernels hold them in: where the
  source computes a product in \<^verbatim>\<open>int\<close> that leaves its range (signed overflow,
  undefined behaviour), the run has no result, which the model makes the error
  \<open>IntOverflow\<close>.
\<close>

subsection \<open>Tensors and their Eigen views\<close>

text \<open>
  A \<^verbatim>\<open>framework::Tensor\<close> of rank two: its two dimensions and its flat buffer
  (what \<^verbatim>\<open>data<T>()\<close> points to), addressed by element offset.
\<close>

record 'a Tensor =
  dims0 :: nat
  dims1 :: nat
  data :: "nat \<Rightarrow> 'a"

text \<open>
  \<^verbatim>\<open>EigenMatrix<T>::From(t)\<close> is the row-major matrix view of the buffer:
  coefficient \<open>(i, j)\<close> lives at offset \<open>i * dims1 + j\<close>.
\<close>

definition coeff :: "'a Tensor \<Rightarrow> nat \<Rightarrow> nat \<Rightarrow> 'a" where
  "coeff t i j = data t (i * dims1 t + j)"

text \<open>\<^verbatim>\<open>m.slice(offsets, extents)\<close> read as an expression.\<close>

definition slice :: "'a Tensor \<Rightarrow> nat \<times> nat \<Rightarrow> nat \<times> nat \<Rightarrow> nat \<Rightarrow> nat \<Rightarrow> 'a" where
  "slice t offsets extents i j = coeff t (fst offsets + i) (snd offsets + j)"

text \<open>
  \<^verbatim>\<open>m.slice(offsets, extents).device(place) = e\<close>: every cell of the buffer whose
  row-major coordinates fall into the rectangle receives the coefficient of \<open>e\<close> at the
  coordinates relative to the rectangle; every other cell keeps its content.
\<close>

definition assign_slice ::
  "'a Tensor \<Rightarrow> nat \<times> nat \<Rightarrow> nat \<times> nat \<Rightarrow> (nat \<Rightarrow> nat \<Rightarrow> 'a) \<Rightarrow> 'a Tensor" where
  "assign_slice t offsets extents e =
     t\<lparr>data := (\<lambda>n.
        let i = n div dims1 t; j = n mod dims1 t in
        if fst offsets \<le> i \<and> i < fst offsets + fst extents \<and>
           snd offsets \<le> j \<and> j < snd offsets + snd extents
        then e (i - fst offsets) (j - snd offsets)
        else data t n)\<rparr>"

text \<open>\<^verbatim>\<open>m.device(place) = e\<close> on the whole matrix.\<close>

definition assign :: "'a Tensor \<Rightarrow> (nat \<Rightarrow> nat \<Rightarrow> 'a) \<Rightarrow> 'a Tensor" where
  "assign t e = assign_slice t (0, 0) (dims0 t, dims1 t) e"

subsection \<open>The matrix-multiply collaborator\<close>

text \<open>A raw pointer into a buffer: the buffer and an element offset.\<close>

type_synonym 'a ptr = "(nat \<Rightarrow> 'a) \<times> nat"

text \<open>
  Modelled from the spec: \<^verbatim>\<open>math::gemm\<close> of \<^verbatim>\<open>paddle/operators/math/math_function.h\<close>
  is not part of the sources at hand. Its contract is
  \<open>C := alpha * op(A) * op(B) + beta * C\<close> on row-major operands, \<open>op(A)\<close> being
  \<open>M \<times> K\<close>, \<open>op(B)\<close> being \<open>K \<times> N\<close> and \<open>C\<close> being \<open>M \<times> N\<close>, with
  \<open>lda\<close>, \<open>ldb\<close>, \<open>ldc\<close> the row strides of the stored matrices. The result
  is the buffer of \<open>C\<close> after the call.
\<close>

definition gemm ::
  "bool \<Rightarrow> bool \<Rightarrow> nat \<Rightarrow> nat \<Rightarrow> nat \<Rightarrow> 'a::comm_ring_1 \<Rightarrow> 'a ptr \<Rightarrow> nat \<Rightarrow> 'a ptr \<Rightarrow> nat \<Rightarrow>
   'a \<Rightarrow> 'a ptr \<Rightarrow> nat \<Rightarrow> nat \<Rightarrow> 'a" where
  "gemm transA transB M N K alpha A lda B ldb beta C ldc =
     (\<lambda>n.
        let i = (n - snd C) div ldc; j = (n - snd C) mod ldc in
        if snd C \<le> n \<and> i < M \<and> j < N
        then alpha * sum_list (map (\<lambda>k.
               (if transA then fst A (snd A + k * lda + i) else fst A (snd A + i * lda + k)) *
               (if transB then fst B (snd B + j * ldb + k) else fst B (snd B + k * ldb + j)))
               [0..<K])
             + beta * fst C n
        else fst C n)"

subsection \<open>Activation dispatch\<close>

text \<open>\<^verbatim>\<open>enum GRUActivationType { identity = 0, sigmoid = 1, tanh = 2, relu = 3 }\<close>\<close>

definition identity :: int where "identity = 0"
definition sigmoid :: int where "sigmoid = 1"
definition tanh :: int where "tanh = 2"
definition relu :: int where "relu = 3"

text \<open>
  Modelled from the spec: the functors of \<^verbatim>\<open>paddle/operators/activation_op.h\<close> are not
  part of the sources at hand. They are elementwise; the forward ones map a pre-activation
  \<open>x\<close> to \<open>y\<close>, the gradient ones map \<open>x\<close>, \<open>y\<close> and the downstream gradient
  \<open>dy\<close> to \<open>dx\<close>. The kernels are parametrised by them.
\<close>

record 'a activation_op =
  SigmoidFunctor :: "'a \<Rightarrow> 'a"
  TanhFunctor :: "'a \<Rightarrow> 'a"
  ReluFunctor :: "'a \<Rightarrow> 'a"
  SigmoidGradFunctor :: "'a \<Rightarrow> 'a \<Rightarrow> 'a \<Rightarrow> 'a"
  TanhGradFunctor :: "'a \<Rightarrow> 'a \<Rightarrow> 'a \<Rightarrow> 'a"
  ReluGradFunctor :: "'a \<Rightarrow> 'a \<Rightarrow> 'a \<Rightarrow> 'a"

text \<open>
  \<^verbatim>\<open>PADDLE_THROW\<close> raises \<^verbatim>\<open>EnforceNotMet\<close> with its message.
  \<open>IntOverflow\<close> stands for a run that computes a value outside \<^verbatim>\<open>int\<close>.
\<close>

datatype error = EnforceNotMet string | IntOverflow

text \<open>The values an \<^verbatim>\<open>int\<close> of 32 bits holds, as far as they are not negative.\<close>

definition int_range :: "nat \<Rightarrow> bool" where
  "int_range n \<longleftrightarrow> n \<le> 2147483647"

text \<open>
  \<^verbatim>\<open>GRUUnitKernel::ActCompute(act_type, d, x, y)\<close>: \<open>x\<close> is the expression read,
  \<open>y\<close> the destination, given as the assignment to it.
\<close>

definition ActCompute ::
  "'a activation_op \<Rightarrow> int \<Rightarrow> (nat \<Rightarrow> nat \<Rightarrow> 'a) \<Rightarrow> ((nat \<Rightarrow> nat \<Rightarrow> 'a) \<Rightarrow> 'a Tensor) \<Rightarrow>
   error + 'a Tensor" where
  "ActCompute F act_type x y =
     (if act_type = identity then Inr (y x)
      else if act_type = sigmoid then Inr (y (\<lambda>i j. SigmoidFunctor F (x i j)))
      else if act_type = tanh then Inr (y (\<lambda>i j. TanhFunctor F (x i j)))
      else if act_type = relu then Inr (y (\<lambda>i j. ReluFunctor F (x i j)))
      else Inl (EnforceNotMet ''unsupported activation type''))"

text \<open>\<^verbatim>\<open>GRUUnitGradKernel::ActGradCompute(act_type, d, x, y, dx, dy)\<close>.\<close>

definition ActGradCompute ::
  "'a activation_op \<Rightarrow> int \<Rightarrow> (nat \<Rightarrow> nat \<Rightarrow> 'a) \<Rightarrow> (nat \<Rightarrow> nat \<Rightarrow> 'a) \<Rightarrow>
   ((nat \<Rightarrow> nat \<Rightarrow> 'a) \<Rightarrow> 'a Tensor) \<Rightarrow> (nat \<Rightarrow> nat \<Rightarrow> 'a) \<Rightarrow> error + 'a Tensor" where
  "ActGradCompute F act_type x y dx dy =
     (if act_type = identity then Inr (dx dy)
      else if act_type = sigmoid then Inr (dx (\<lambda>i j. SigmoidGradFunctor F (x i j) (y i j) (dy i j)))
      else if act_type = tanh then Inr (dx (\<lambda>i j. TanhGradFunctor F (x i j) (y i j) (dy i j)))
      else if act_type = relu then Inr (dx (\<lambda>i j. ReluGradFunctor F (x i j) (y i j) (dy i j)))
      else Inl (EnforceNotMet ''unsupported activation type''))"

subsection \<open>The execution context\<close>

text \<open>
  The named variables and attributes a kernel obtains from its
  \<^verbatim>\<open>framework::ExecutionContext\<close>. The fields \<open>X_GRAD\<close> stand for
  \<^verbatim>\<open>framework::GradVarName("X")\<close>. An output tensor arrives with its dimensions set and
  a buffer of unspecified content.
\<close>

record 'a ExecutionContext =
  Input :: "'a Tensor"
  HiddenPrev :: "'a Tensor"
  Weight :: "'a Tensor"
  Bias :: "'a Tensor"
  Gate :: "'a Tensor"
  ResetHiddenPrev :: "'a Tensor"
  Hidden :: "'a Tensor"
  Hidden_GRAD :: "'a Tensor"
  Input_GRAD :: "'a Tensor"
  HiddenPrev_GRAD :: "'a Tensor"
  Weight_GRAD :: "'a Tensor"
  Bias_GRAD :: "'a Tensor"
  gate_activation :: int
  activation :: int

subsection \<open>The forward kernel\<close>

text \<open>
  Lines 62 to 84 of \<^verbatim>\<open>GRUUnitKernel::Compute\<close>, under its comment
  \<^verbatim>\<open>calculate unactivated gate outputs\<close>: the sizes are read into \<^verbatim>\<open>int\<close>
  variables, the bias is added to the input, and the first \<open>gemm\<close> accumulates the
  recurrent term of the update and reset gates. A size that \<^verbatim>\<open>int\<close> cannot hold
  does not survive lines 62 and 63, and \<^verbatim>\<open>frame_size * 3\<close> of line 75 must be in
  range; the products \<^verbatim>\<open>2 * frame_size\<close> and \<^verbatim>\<open>frame_size * 2\<close> then are.
  The result is the \<open>Gate\<close> tensor after these statements.
\<close>

definition unactivated_gate :: "'a::comm_ring_1 ExecutionContext \<Rightarrow> error + 'a Tensor" where
  "unactivated_gate context =
    (let input = Input context;
         hidden_prev = HiddenPrev context;
         weight = Weight context;
         bias = Bias context;
         gate = Gate context;
         batch_size = dims0 input;
         frame_size = dims1 hidden_prev
     in if \<not> (int_range batch_size \<and> int_range frame_size) then Inl IntOverflow
        else if \<not> int_range (frame_size * 3) then Inl IntOverflow
        else
     (let x = coeff input;
          gate = assign gate (\<lambda>i j. x i j + data bias j);
          gate = gate\<lparr>data :=
            gemm False False batch_size (2 * frame_size) frame_size 1
              (data hidden_prev, 0) frame_size (data weight, 0) (frame_size * 2) 1
              (data gate, 0) (frame_size * 3)\<rparr>
      in Inr gate))"

text \<open>
  \<^verbatim>\<open>GRUUnitKernel::Compute\<close>; the result is the context with the three outputs written.
  The second \<open>gemm\<close> (lines 97 to 101) is the statement that computes
  \<^verbatim>\<open>frame_size * frame_size * 2\<close>.
\<close>

definition Compute ::
  "'a::comm_ring_1 activation_op \<Rightarrow> 'a ExecutionContext \<Rightarrow> error + 'a ExecutionContext" where
  "Compute F context =
    (let hidden_prev = HiddenPrev context;
         weight = Weight context;
         reset_hidden_prev = ResetHiddenPrev context;
         hidden = Hidden context;
         batch_size = dims0 (Input context);
         frame_size = dims1 hidden_prev;
         h_p = coeff hidden_prev
     in case unactivated_gate context of
          Inl e \<Rightarrow> Inl e
        | Inr gate \<Rightarrow>
     (let extents = (batch_size, frame_size);
          u_offsets = (0, 0)
      in case ActCompute F (gate_activation context)
                (slice gate u_offsets extents) (assign_slice gate u_offsets extents) of
           Inl e \<Rightarrow> Inl e
         | Inr gate \<Rightarrow>
     (let r_offsets = (0, frame_size)
      in case ActCompute F (gate_activation context)
                (slice gate r_offsets extents) (assign_slice gate r_offsets extents) of
           Inl e \<Rightarrow> Inl e
         | Inr gate \<Rightarrow>
     (let r = slice gate r_offsets extents;
          reset_hidden_prev = assign reset_hidden_prev (\<lambda>i j. r i j * h_p i j)
      in if \<not> int_range (frame_size * frame_size * 2) then Inl IntOverflow
         else
     (let gate = gate\<lparr>data :=
            gemm False False batch_size frame_size frame_size 1
              (data reset_hidden_prev, 0) frame_size
              (data weight, frame_size * frame_size * 2) frame_size 1
              (data gate, frame_size * 2) (frame_size * 3)\<rparr>;
          c_offsets = (0, frame_size * 2)
      in case ActCompute F (activation context)
                (slice gate c_offsets extents) (assign_slice gate c_offsets extents) of
           Inl e \<Rightarrow> Inl e
         | Inr gate \<Rightarrow>
     (let u = slice gate u_offsets extents;
          c = slice gate c_offsets extents;
          hidden = assign hidden (\<lambda>i j. u i j * (h_p i j - c i j) + c i j)
      in Inr (context\<lparr>Gate := gate, ResetHiddenPrev := reset_hidden_prev,
                Hidden := hidden\<rparr>)))))))"

subsection \<open>The backward kernel\<close>

text \<open>
  What \<^verbatim>\<open>GRUUnitGradKernel::Compute\<close> leaves behind: the context with the four gradient
  outputs written, and its two local tensors.
\<close>

record 'a GradResult =
  grad_context :: "'a ExecutionContext"
  gate_grad :: "'a Tensor"
  reset_hidden_prev_grad :: "'a Tensor"

text \<open>
  \<^verbatim>\<open>GRUUnitGradKernel::Compute\<close>. The two local tensors are allocated by
  \<^verbatim>\<open>mutable_data\<close> and not initialised: \<open>gate_grad_mem\<close> and
  \<open>reset_hidden_prev_grad_mem\<close> are the contents the fresh memory happens to have.
  The first product in \<^verbatim>\<open>int\<close> is \<^verbatim>\<open>frame_size * 2\<close> of line 181, before the
  first dispatch; \<^verbatim>\<open>frame_size * 3\<close> and \<^verbatim>\<open>frame_size * frame_size * 2\<close> are
  first computed for the \<open>gemm\<close> of lines 191 to 195, after the second dispatch.
\<close>

definition GradCompute ::
  "'a::comm_ring_1 activation_op \<Rightarrow> (nat \<Rightarrow> 'a) \<Rightarrow> (nat \<Rightarrow> 'a) \<Rightarrow> 'a ExecutionContext \<Rightarrow>
   error + 'a GradResult" where
  "GradCompute F gate_grad_mem reset_hidden_prev_grad_mem context =
    (let input = Input context;
         hidden_prev = HiddenPrev context;
         weight = Weight context;
         gate = Gate context;
         reset_hidden_prev = ResetHiddenPrev context;
         hidden_grad = Hidden_GRAD context;
         input_grad = Input_GRAD context;
         hidden_prev_grad = HiddenPrev_GRAD context;
         weight_grad = Weight_GRAD context;
         bias_grad = Bias_GRAD context;
         gate_grad = \<lparr>dims0 = dims0 input, dims1 = dims1 input, data = gate_grad_mem\<rparr>;
         reset_hidden_prev_grad =
           \<lparr>dims0 = dims0 reset_hidden_prev, dims1 = dims1 reset_hidden_prev,
            data = reset_hidden_prev_grad_mem\<rparr>;
         batch_size = dims0 input;
         frame_size = dims1 hidden_prev
     in if \<not> (int_range batch_size \<and> int_range frame_size) then Inl IntOverflow
        else
     (let h_p = coeff hidden_prev;
          d_h = coeff hidden_grad;
          extents = (batch_size, frame_size);
          u_offsets = (0, 0);
          u = slice gate u_offsets extents;
          r_offsets = (0, frame_size);
          r = slice gate r_offsets extents
      in if \<not> int_range (frame_size * 2) then Inl IntOverflow
         else
     (let c_offsets = (0, frame_size * 2);
          c = slice gate c_offsets extents
      in case ActGradCompute F (gate_activation context) u u
                (assign_slice gate_grad u_offsets extents)
                (\<lambda>i j. d_h i j * (h_p i j - c i j)) of
           Inl e \<Rightarrow> Inl e
         | Inr gate_grad \<Rightarrow>
     (case ActGradCompute F (activation context) c c
                (assign_slice gate_grad c_offsets extents)
                (\<lambda>i j. d_h i j * (1 - u i j)) of
           Inl e \<Rightarrow> Inl e
         | Inr gate_grad \<Rightarrow>
     (if \<not> (int_range (frame_size * 3) \<and> int_range (frame_size * frame_size * 2))
      then Inl IntOverflow
      else
     (let reset_hidden_prev_grad = reset_hidden_prev_grad\<lparr>data :=
            gemm False True batch_size frame_size frame_size 1
              (data gate_grad, frame_size * 2) (frame_size * 3)
              (data weight, frame_size * frame_size * 2) frame_size 0
              (data reset_hidden_prev_grad, 0) frame_size\<rparr>;
          weight_grad = weight_grad\<lparr>data :=
            gemm True False frame_size frame_size batch_size 1
              (data reset_hidden_prev, 0) frame_size
              (data gate_grad, frame_size * 2) (frame_size * 3) 0
              (data weight_grad, frame_size * frame_size * 2) frame_size\<rparr>
      in case ActGradCompute F (gate_activation context) r r
                (assign_slice gate_grad r_offsets extents)
                (\<lambda>i j. coeff reset_hidden_prev_grad i j * h_p i j) of
           Inl e \<Rightarrow> Inl e
         | Inr gate_grad \<Rightarrow>
     (let weight_grad = weight_grad\<lparr>data :=
            gemm True False frame_size (frame_size * 2) batch_size 1
              (data hidden_prev, 0) frame_size (data gate_grad, 0) (frame_size * 3) 0
              (data weight_grad, 0) (frame_size * 2)\<rparr>;
          hidden_prev_grad = assign hidden_prev_grad
            (\<lambda>i j. coeff reset_hidden_prev_grad i j * r i j + d_h i j * u i j);
          hidden_prev_grad = hidden_prev_grad\<lparr>data :=
            gemm False True batch_size frame_size (frame_size * 2) 1
              (data gate_grad, 0) (frame_size * 3) (data weight, 0) (frame_size * 2) 1
              (data hidden_prev_grad, 0) frame_size\<rparr>;
          input_grad = assign input_grad (coeff gate_grad);
          bias_grad = assign bias_grad
            (\<lambda>i j. sum_list (map (\<lambda>i'. coeff gate_grad i' j) [0..<dims0 gate_grad]))
      in Inr \<lparr>grad_context = context\<lparr>Input_GRAD := input_grad,
                  HiddenPrev_GRAD := hidden_prev_grad, Weight_GRAD := weight_grad,
                  Bias_GRAD := bias_grad\<rparr>,
                gate_grad = gate_grad,
                reset_hidden_prev_grad = reset_hidden_prev_grad\<rparr>)))))))"

subsection \<open>Vocabulary for stating what the kernels compute\<close>

text \<open>
  The four tags the dispatchers accept, and the elementwise function a supported tag
  selects: \<open>act\<close> for \<open>ActCompute\<close>, \<open>act_grad\<close> for
  \<open>ActGradCompute\<close> (both only meaningful for a supported tag).
\<close>

definition supported :: "int \<Rightarrow> bool" where
  "supported act_type \<longleftrightarrow> act_type \<in> {identity, sigmoid, tanh, relu}"

definition act :: "'a activation_op \<Rightarrow> int \<Rightarrow> 'a \<Rightarrow> 'a" where
  "act F act_type v =
     (if act_type = identity then v
      else if act_type = sigmoid then SigmoidFunctor F v
      else if act_type = tanh then TanhFunctor F v
      else ReluFunctor F v)"

definition act_grad :: "'a activation_op \<Rightarrow> int \<Rightarrow> 'a \<Rightarrow> 'a \<Rightarrow> 'a \<Rightarrow> 'a" where
  "act_grad F act_type x y dy =
     (if act_type = identity then dy
      else if act_type = sigmoid then SigmoidGradFunctor F x y dy
      else if act_type = tanh then TanhGradFunctor F x y dy
      else ReluGradFunctor F x y dy)"

text \<open>
  The shapes a forward call is made with (shape inference has fixed them before the
  kernel runs): with \<open>batch_size\<close> the rows of \<open>Input\<close> and \<open>frame_size\<close>
  the columns of \<open>HiddenPrev\<close>, as the kernel reads them.
\<close>

definition forward_shapes :: "'a ExecutionContext \<Rightarrow> bool" where
  "forward_shapes context \<longleftrightarrow>
     (let batch_size = dims0 (Input context); frame_size = dims1 (HiddenPrev context) in
      dims1 (Input context) = 3 * frame_size \<and>
      dims0 (HiddenPrev context) = batch_size \<and>
      dims0 (Weight context) = frame_size \<and> dims1 (Weight context) = 3 * frame_size \<and>
      dims0 (Bias context) = 1 \<and> dims1 (Bias context) = 3 * frame_size \<and>
      dims0 (Gate context) = batch_size \<and> dims1 (Gate context) = 3 * frame_size \<and>
      dims0 (ResetHiddenPrev context) = batch_size \<and>
      dims1 (ResetHiddenPrev context) = frame_size \<and>
      dims0 (Hidden context) = batch_size \<and> dims1 (Hidden context) = frame_size)"

text \<open>The shapes a backward call is made with.\<close>

definition backward_shapes :: "'a ExecutionContext \<Rightarrow> bool" where
  "backward_shapes context \<longleftrightarrow>
     (let batch_size = dims0 (Input context); frame_size = dims1 (HiddenPrev context) in
      dims1 (Input context) = 3 * frame_size \<and>
      dims0 (HiddenPrev context) = batch_size \<and>
      dims0 (Weight context) = frame_size \<and> dims1 (Weight context) = 3 * frame_size \<and>
      dims0 (Gate context) = batch_size \<and> dims1 (Gate context) = 3 * frame_size \<and>
      dims0 (ResetHiddenPrev context) = batch_size \<and>
      dims1 (ResetHiddenPrev context) = frame_size \<and>
      dims0 (Hidden_GRAD context) = batch_size \<and> dims1 (Hidden_GRAD context) = frame_size \<and>
      dims0 (Input_GRAD context) = batch_size \<and> dims1 (Input_GRAD context) = 3 * frame_size \<and>
      dims0 (HiddenPrev_GRAD context) = batch_size \<and>
      dims1 (HiddenPrev_GRAD context) = frame_size \<and>
      dims0 (Weight_GRAD context) = frame_size \<and>
      dims1 (Weight_GRAD context) = 3 * frame_size \<and>
      dims0 (Bias_GRAD context) = 1 \<and> dims1 (Bias_GRAD context) = 3 * frame_size)"

text \<open>
  The sizes of a call fit \<^verbatim>\<open>int\<close>, and so do the products the kernels compute from
  them in \<^verbatim>\<open>int\<close>.
\<close>

definition int_sized :: "'a ExecutionContext \<Rightarrow> bool" where
  "int_sized context \<longleftrightarrow>
     (let batch_size = dims0 (Input context); frame_size = dims1 (HiddenPrev context) in
      int_range batch_size \<and> int_range (frame_size * 3) \<and>
      int_range (frame_size * frame_size * 2))"

text \<open>The four gradient outputs of a backward run, or its error.\<close>

definition gradient_outputs ::
  "error + 'a GradResult \<Rightarrow> error + 'a Tensor \<times> 'a Tensor \<times> 'a Tensor \<times> 'a Tensor" where
  "gradient_outputs res =
     (case res of
        Inl e \<Rightarrow> Inl e
      | Inr r \<Rightarrow> Inr (Input_GRAD (grad_context r), HiddenPrev_GRAD (grad_context r),
                       Weight_GRAD (grad_context r), Bias_GRAD (grad_context r)))"

subsection \<open>A concrete run\<close>

text \<open>
  A buffer holding the listed elements. An instance of the functors on the integers: relu
  and the three gradient functors are their closed forms; integers have no exponential,
  so the sigmoid and tanh slots hold clipped-linear stand-ins. A context with
  \<open>batch_size = 2\<close> and \<open>frame_size = 2\<close>, both activations relu, whose output
  buffers start with arbitrary content; and the same context holding the \<open>Gate\<close> and
  \<open>ResetHiddenPrev\<close> its forward run produces, as a backward run receives it.
\<close>

definition buffer :: "'a::zero list \<Rightarrow> nat \<Rightarrow> 'a" where
  "buffer xs n = (if n < length xs then xs ! n else 0)"

definition test_activation_op :: "int activation_op" where
  "test_activation_op =
     \<lparr>SigmoidFunctor = (\<lambda>x. max 0 (min 1 x)),
      TanhFunctor = (\<lambda>x. max (- 1) (min 1 x)),
      ReluFunctor = (\<lambda>x. max 0 x),
      SigmoidGradFunctor = (\<lambda>x y dy. dy * y * (1 - y)),
      TanhGradFunctor = (\<lambda>x y dy. dy * (1 - y * y)),
      ReluGradFunctor = (\<lambda>x y dy. if y > 0 then dy else 0)\<rparr>"

definition example_context :: "int ExecutionContext" where
  "example_context =
     \<lparr>Input = \<lparr>dims0 = 2, dims1 = 6, data = buffer [1, 2, - 3, 0, 1, - 1, 0, - 1, 2, 1, - 2, 3]\<rparr>,
      HiddenPrev = \<lparr>dims0 = 2, dims1 = 2, data = buffer [1, 2, 3, - 1]\<rparr>,
      Weight = \<lparr>dims0 = 2, dims1 = 6, data = buffer [1, 0, 2, - 1, 0, 1, 1, 3, 2, 1, - 1, 1]\<rparr>,
      Bias = \<lparr>dims0 = 1, dims1 = 6, data = buffer [1, - 1, 0, 2, 1, 0]\<rparr>,
      Gate = \<lparr>dims0 = 2, dims1 = 6, data = (\<lambda>n. 9)\<rparr>,
      ResetHiddenPrev = \<lparr>dims0 = 2, dims1 = 2, data = (\<lambda>n. 9)\<rparr>,
      Hidden = \<lparr>dims0 = 2, dims1 = 2, data = (\<lambda>n. 9)\<rparr>,
      Hidden_GRAD = \<lparr>dims0 = 2, dims1 = 2, data = buffer [1, - 2, 3, 1]\<rparr>,
      Input_GRAD = \<lparr>dims0 = 2, dims1 = 6, data = (\<lambda>n. 9)\<rparr>,
      HiddenPrev_GRAD = \<lparr>dims0 = 2, dims1 = 2, data = (\<lambda>n. 9)\<rparr>,
      Weight_GRAD = \<lparr>dims0 = 2, dims1 = 6, data = (\<lambda>n. 9)\<rparr>,
      Bias_GRAD = \<lparr>dims0 = 1, dims1 = 6, data = (\<lambda>n. 9)\<rparr>,
      gate_activation = 3,
      activation = 3\<rparr>"

definition example_grad_context :: "int ExecutionContext" where
  "example_grad_context =
     example_context
       \<lparr>Gate := \<lparr>dims0 = 2, dims1 = 6,
                 data = buffer [3, 3, 1, 7, 0, 14, 4, 0, 7, 0, 41, 24]\<rparr>,
        ResetHiddenPrev := \<lparr>dims0 = 2, dims1 = 2, data = buffer [1, 14, 21, 0]\<rparr>\<rparr>"

text \<open>The forward and the backward run on these contexts.\<close>

definition example_unactivated :: "error + int Tensor" where
  "example_unactivated = unactivated_gate example_context"

definition example_run :: "error + int ExecutionContext" where
  "example_run = Compute test_activation_op example_context"

definition example_grad_run :: "error + int GradResult" where
  "example_grad_run =
     GradCompute test_activation_op (buffer []) (buffer []) example_grad_context"

text \<open>Another tensor of the shape of the \<open>Input\<close> of the concrete run.\<close>

definition example_other_input :: "int Tensor" where
  "example_other_input = \<lparr>dims0 = 2, dims1 = 6, data = buffer [5, 5, 5]\<rparr>"

section \<open>Reading the views\<close>

lemma dims_assign_slice [simp]:
  "dims0 (assign_slice t offsets extents e) = dims0 t"
  "dims1 (assign_slice t offsets extents e) = dims1 t"
  by (simp_all add: assign_slice_def)

lemma dims_assign [simp]:
  "dims0 (assign t e) = dims0 t" "dims1 (assign t e) = dims1 t"
  by (simp_all add: assign_def)

lemma coeff_assign_slice:
  assumes "j < dims1 t"
  shows "coeff (assign_slice t (o0, o1) (e0, e1) e) i j =
           (if o0 \<le> i \<and> i < o0 + e0 \<and> o1 \<le> j \<and> j < o1 + e1 then e (i - o0) (j - o1)
            else coeff t i j)"
  using assms by (simp add: coeff_def assign_slice_def Let_def)

lemma coeff_assign:
  assumes "i < dims0 t" "j < dims1 t"
  shows "coeff (assign t e) i j = e i j"
  using assms by (simp add: assign_def coeff_assign_slice)

lemma shifted_div_mod:
  fixes i j c0 ld :: nat
  assumes "j < ld" "c0 \<le> j"
  shows "(i * ld + j - c0) div ld = i" "(i * ld + j - c0) mod ld = j - c0"
proof -
  have e: "i * ld + j - c0 = i * ld + (j - c0)" using assms by simp
  have l: "j - c0 < ld" using assms by simp
  show "(i * ld + j - c0) div ld = i" unfolding e using l by simp
  show "(i * ld + j - c0) mod ld = j - c0" unfolding e using l by simp
qed

lemma shifted_mod_below:
  fixes i j c0 ld N :: nat
  assumes "j < c0" "c0 + N \<le> ld" "c0 \<le> i * ld + j"
  shows "\<not> (i * ld + j - c0) mod ld < N"
proof -
  from assms obtain i' where i: "i = Suc i'" by (cases i) auto
  have e: "i * ld + j - c0 = i' * ld + (ld + j - c0)" using assms i by simp
  have l: "ld + j - c0 < ld" using assms by simp
  have "(i * ld + j - c0) mod ld = ld + j - c0" unfolding e using l by simp
  then show ?thesis using assms by simp
qed

lemma gemm_rowmajor:
  fixes C :: "nat \<Rightarrow> 'a::comm_ring_1"
  assumes "j < ld" "c0 + N \<le> ld"
  shows "gemm transA transB M N K alpha A lda B ldb beta (C, c0) ld (i * ld + j) =
           (if i < M \<and> c0 \<le> j \<and> j < c0 + N
            then alpha * sum_list (map (\<lambda>k.
                   (if transA then fst A (snd A + k * lda + i) else fst A (snd A + i * lda + k)) *
                   (if transB then fst B (snd B + (j - c0) * ldb + k)
                    else fst B (snd B + k * ldb + (j - c0))))
                   [0..<K])
                 + beta * C (i * ld + j)
            else C (i * ld + j))"
proof (cases "c0 \<le> j")
  case True
  have lt: "j - c0 < N \<longleftrightarrow> j < c0 + N" using True by auto
  have le: "c0 \<le> i * ld + j" using True by (simp add: trans_le_add2)
  show ?thesis
    unfolding gemm_def using True le
    by (simp add: Let_def shifted_div_mod [OF assms(1) True] lt)
next
  case False
  then have jl: "j < c0" by simp
  show ?thesis
  proof (cases "c0 \<le> i * ld + j")
    case True
    from shifted_mod_below [OF jl assms(2) True] show ?thesis
      unfolding gemm_def using False by (simp add: Let_def)
  next
    case False
    then show ?thesis unfolding gemm_def using jl by (simp add: Let_def)
  qed
qed

lemma coeff_gemm:
  fixes g :: "'a::comm_ring_1 Tensor"
  assumes "dims1 g = ld" "j < ld" "c0 + N \<le> ld"
  shows "coeff (g\<lparr>data := gemm transA transB M N K alpha A lda B ldb beta (data g, c0) ld\<rparr>) i j =
           (if i < M \<and> c0 \<le> j \<and> j < c0 + N
            then alpha * sum_list (map (\<lambda>k.
                   (if transA then fst A (snd A + k * lda + i) else fst A (snd A + i * lda + k)) *
                   (if transB then fst B (snd B + (j - c0) * ldb + k)
                    else fst B (snd B + k * ldb + (j - c0))))
                   [0..<K])
                 + beta * coeff g i j
            else coeff g i j)"
  using gemm_rowmajor [OF assms(2) assms(3), of transA transB M K alpha A lda B ldb beta "data g" i]
  by (simp add: coeff_def assms(1))

lemma sum_list_upt_cong:
  assumes "\<And>k. k < n \<Longrightarrow> f k = g k"
  shows "sum_list (map f [0..<n]) = sum_list (map g [0..<n])"
proof -
  have "map f [0..<n] = map g [0..<n]" using assms by simp
  then show ?thesis by (rule arg_cong)
qed

section \<open>The dispatchers and the range of int\<close>

lemma supported_iff: "supported t \<longleftrightarrow> t = 0 \<or> t = 1 \<or> t = 2 \<or> t = 3"
  by (auto simp: supported_def identity_def sigmoid_def tanh_def relu_def)

lemma ActCompute_supported:
  "supported t \<Longrightarrow> ActCompute F t x y = Inr (y (\<lambda>i j. act F t (x i j)))"
  by (auto simp: supported_def ActCompute_def act_def identity_def sigmoid_def tanh_def relu_def)

lemma ActCompute_unsupported:
  "\<not> supported t \<Longrightarrow> ActCompute F t x y = Inl (EnforceNotMet ''unsupported activation type'')"
  by (auto simp: supported_def ActCompute_def identity_def sigmoid_def tanh_def relu_def)

lemma ActGradCompute_supported:
  "supported t \<Longrightarrow>
   ActGradCompute F t x y dx dy = Inr (dx (\<lambda>i j. act_grad F t (x i j) (y i j) (dy i j)))"
  by (auto simp: supported_def ActGradCompute_def act_grad_def
      identity_def sigmoid_def tanh_def relu_def)

lemma ActGradCompute_unsupported:
  "\<not> supported t \<Longrightarrow>
   ActGradCompute F t x y dx dy = Inl (EnforceNotMet ''unsupported activation type'')"
  by (auto simp: supported_def ActGradCompute_def identity_def sigmoid_def tanh_def relu_def)

lemma int_sized_ranges:
  assumes "int_sized context"
  shows "int_range (dims0 (Input context))" "int_range (dims1 (HiddenPrev context))"
    "int_range (dims1 (HiddenPrev context) * 2)"
    "int_range (dims1 (HiddenPrev context) * 3)"
    "int_range (dims1 (HiddenPrev context) * dims1 (HiddenPrev context) * 2)"
  using assms by (simp_all add: int_sized_def int_range_def Let_def)

text \<open>The largest frame size whose square, doubled, is an \<^verbatim>\<open>int\<close> is 32767.\<close>

lemma frame_size_32768: "\<not> int_range (32768 * 32768 * 2)" "int_range (32767 * 32767 * 2)"
  by (simp_all add: int_range_def)

section \<open>The forward kernel\<close>

text \<open>
  A forward call with consistent shapes, sizes within \<^verbatim>\<open>int\<close> and supported tags
  returns; the lemmas give every coefficient of its outputs. The tensors the kernel holds
  between its statements are named inside the proofs.
\<close>

lemma unactivated_gate_returns:
  assumes sh: "forward_shapes (context :: 'a::comm_ring_1 ExecutionContext)"
    and sz: "int_sized context"
  shows "\<exists>gate. unactivated_gate context = Inr gate \<and>
           dims1 gate = 3 * dims1 (HiddenPrev context) \<and>
           (\<forall>i<dims0 (Input context). \<forall>j<3 * dims1 (HiddenPrev context).
              coeff gate i j =
                (if j < 2 * dims1 (HiddenPrev context)
                 then coeff (Input context) i j + data (Bias context) j +
                      sum_list (map (\<lambda>k. coeff (HiddenPrev context) i k *
                          data (Weight context) (k * (2 * dims1 (HiddenPrev context)) + j))
                        [0..<dims1 (HiddenPrev context)])
                 else coeff (Input context) i j + data (Bias context) j))"
proof -
  let ?b = "dims0 (Input context)" and ?f = "dims1 (HiddenPrev context)"
  define g1 where
    "g1 = assign (Gate context) (\<lambda>i j. coeff (Input context) i j + data (Bias context) j)"
  define g2 where
    "g2 = g1\<lparr>data :=
       gemm False False ?b (2 * ?f) ?f 1 (data (HiddenPrev context), 0) ?f
         (data (Weight context), 0) (?f * 2) 1 (data g1, 0) (?f * 3)\<rparr>"
  have U: "unactivated_gate context = Inr g2"
    unfolding unactivated_gate_def g2_def g1_def
    by (simp add: Let_def int_sized_ranges [OF sz])
  have d0: "dims0 (Gate context) = ?b" and d: "dims1 (Gate context) = ?f * 3"
    using sh by (simp_all add: forward_shapes_def Let_def)
  have d1: "dims1 g1 = ?f * 3" by (simp add: g1_def d)
  have d2: "dims1 g2 = 3 * ?f" by (simp add: g2_def d1)
  have c1: "coeff g1 i j = coeff (Input context) i j + data (Bias context) j"
    if "i < ?b" "j < 3 * ?f" for i j
    unfolding g1_def using that by (simp add: coeff_assign d0 d)
  have c2: "coeff g2 i j =
              (if j < 2 * ?f
               then coeff (Input context) i j + data (Bias context) j +
                    sum_list (map (\<lambda>k. coeff (HiddenPrev context) i k *
                        data (Weight context) (k * (2 * ?f) + j)) [0..<?f])
               else coeff (Input context) i j + data (Bias context) j)"
    if "i < ?b" "j < 3 * ?f" for i j
  proof -
    have j: "j < ?f * 3" using that by simp
    have n: "0 + 2 * ?f \<le> ?f * 3" by simp
    show ?thesis
      unfolding g2_def coeff_gemm [OF d1 j n]
      using that by (simp add: c1 coeff_def [of "HiddenPrev context"] mult.commute [of ?f 2])
  qed
  from U d2 c2 show ?thesis by blast
qed

lemma Compute_returns:
  assumes sh: "forward_shapes (context :: 'a::comm_ring_1 ExecutionContext)"
    and sz: "int_sized context"
    and ga: "supported (gate_activation context)" and a: "supported (activation context)"
    and U: "unactivated_gate context = Inr gate"
  shows "\<exists>out. Compute F context = Inr out \<and>
           (\<forall>i<dims0 (Input context). \<forall>j<3 * dims1 (HiddenPrev context).
              coeff (Gate out) i j =
                (if j < 2 * dims1 (HiddenPrev context)
                 then act F (gate_activation context) (coeff gate i j)
                 else act F (activation context)
                   (coeff gate i j +
                    sum_list (map (\<lambda>k. coeff (ResetHiddenPrev out) i k *
                        data (Weight context)
                          (dims1 (HiddenPrev context) * dims1 (HiddenPrev context) * 2 +
                           k * dims1 (HiddenPrev context) +
                           (j - 2 * dims1 (HiddenPrev context))))
                      [0..<dims1 (HiddenPrev context)])))) \<and>
           (\<forall>i<dims0 (Input context). \<forall>j<dims1 (HiddenPrev context).
              coeff (ResetHiddenPrev out) i j =
                coeff (Gate out) i (dims1 (HiddenPrev context) + j) *
                coeff (HiddenPrev context) i j) \<and>
           (\<forall>i<dims0 (Input context). \<forall>j<dims1 (HiddenPrev context).
              coeff (Hidden out) i j =
                coeff (Gate out) i j *
                  (coeff (HiddenPrev context) i j -
                   coeff (Gate out) i (2 * dims1 (HiddenPrev context) + j)) +
                coeff (Gate out) i (2 * dims1 (HiddenPrev context) + j))"
proof -
  let ?b = "dims0 (Input context)" and ?f = "dims1 (HiddenPrev context)"
  let ?ga = "gate_activation context" and ?a = "activation context"
  from unactivated_gate_returns [OF sh sz] U
  have d2: "dims1 gate = ?f * 3" by auto
  define g3 where
    "g3 = assign_slice gate (0, 0) (?b, ?f) (\<lambda>i j. act F ?ga (slice gate (0, 0) (?b, ?f) i j))"
  define g4 where
    "g4 = assign_slice g3 (0, ?f) (?b, ?f) (\<lambda>i j. act F ?ga (slice g3 (0, ?f) (?b, ?f) i j))"
  define rhp where
    "rhp = assign (ResetHiddenPrev context)
       (\<lambda>i j. slice g4 (0, ?f) (?b, ?f) i j * coeff (HiddenPrev context) i j)"
  define g5 where
    "g5 = g4\<lparr>data :=
       gemm False False ?b ?f ?f 1 (data rhp, 0) ?f (data (Weight context), ?f * ?f * 2) ?f 1
         (data g4, ?f * 2) (?f * 3)\<rparr>"
  define g6 where
    "g6 = assign_slice g5 (0, ?f * 2) (?b, ?f)
       (\<lambda>i j. act F ?a (slice g5 (0, ?f * 2) (?b, ?f) i j))"
  define h where
    "h = assign (Hidden context)
       (\<lambda>i j. slice g6 (0, 0) (?b, ?f) i j *
                 (coeff (HiddenPrev context) i j - slice g6 (0, ?f * 2) (?b, ?f) i j) +
               slice g6 (0, ?f * 2) (?b, ?f) i j)"
  have C: "Compute F context =
             Inr (context\<lparr>Gate := g6, ResetHiddenPrev := rhp, Hidden := h\<rparr>)"
    unfolding Compute_def U h_def g6_def g5_def rhp_def g4_def g3_def
    by (simp add: Let_def ActCompute_supported ga a int_sized_ranges [OF sz])
  have dr: "dims0 (ResetHiddenPrev context) = ?b" "dims1 (ResetHiddenPrev context) = ?f"
    and dh: "dims0 (Hidden context) = ?b" "dims1 (Hidden context) = ?f"
    using sh by (simp_all add: forward_shapes_def Let_def)
  have d3: "dims1 g3 = ?f * 3" by (simp add: g3_def d2)
  have d4: "dims1 g4 = ?f * 3" by (simp add: g4_def d3)
  have d5: "dims1 g5 = ?f * 3" by (simp add: g5_def d4)
  have d6: "dims1 g6 = ?f * 3" by (simp add: g6_def d5)
  have drhp: "dims1 rhp = ?f" by (simp add: rhp_def dr)
  have c3: "coeff g3 i j = (if j < ?f then act F ?ga (coeff gate i j) else coeff gate i j)"
    if "i < ?b" "j < 3 * ?f" for i j
    unfolding g3_def using that by (subst coeff_assign_slice) (simp_all add: d2 slice_def)
  have c4: "coeff g4 i j =
              (if ?f \<le> j \<and> j < 2 * ?f then act F ?ga (coeff g3 i j) else coeff g3 i j)"
    if "i < ?b" "j < 3 * ?f" for i j
    unfolding g4_def using that by (subst coeff_assign_slice) (simp_all add: d3 slice_def)
  have cr: "coeff rhp i j = coeff g4 i (?f + j) * coeff (HiddenPrev context) i j"
    if "i < ?b" "j < ?f" for i j
    unfolding rhp_def using that by (simp add: coeff_assign dr slice_def)
  have c5: "coeff g5 i j =
              (if 2 * ?f \<le> j
               then coeff g4 i j +
                    sum_list (map (\<lambda>k. coeff rhp i k *
                        data (Weight context) (?f * ?f * 2 + k * ?f + (j - 2 * ?f))) [0..<?f])
               else coeff g4 i j)"
    if "i < ?b" "j < 3 * ?f" for i j
  proof -
    have j: "j < ?f * 3" using that by simp
    have n: "?f * 2 + ?f \<le> ?f * 3" by simp
    have r: "data rhp (i * ?f + k) = coeff rhp i k" for k
      by (simp add: coeff_def drhp)
    show ?thesis
      unfolding g5_def coeff_gemm [OF d4 j n]
      using that by (simp add: r mult.commute [of ?f 2])
  qed
  have c6: "coeff g6 i j = (if 2 * ?f \<le> j then act F ?a (coeff g5 i j) else coeff g5 i j)"
    if "i < ?b" "j < 3 * ?f" for i j
    unfolding g6_def using that
    by (subst coeff_assign_slice) (simp_all add: d5 slice_def mult.commute [of ?f 2])
  have ch: "coeff h i j =
              coeff g6 i j * (coeff (HiddenPrev context) i j - coeff g6 i (2 * ?f + j)) +
              coeff g6 i (2 * ?f + j)"
    if "i < ?b" "j < ?f" for i j
    unfolding h_def using that by (simp add: coeff_assign dh slice_def mult.commute [of ?f 2])
  have G: "coeff g6 i j =
             (if j < 2 * ?f then act F ?ga (coeff gate i j)
              else act F ?a
                (coeff gate i j +
                 sum_list (map (\<lambda>k. coeff rhp i k *
                     data (Weight context) (?f * ?f * 2 + k * ?f + (j - 2 * ?f))) [0..<?f])))"
    if "i < ?b" "j < 3 * ?f" for i j
    using that by (simp add: c6 c5 c4 c3)
  have R: "coeff rhp i j = coeff g6 i (?f + j) * coeff (HiddenPrev context) i j"
    if "i < ?b" "j < ?f" for i j
    using that by (simp add: cr c6 c5)
  show ?thesis
    unfolding C using G R ch by simp
qed

lemma Compute_unsupported:
  assumes sz: "int_sized (context :: 'a::comm_ring_1 ExecutionContext)"
    and "\<not> supported (gate_activation context) \<or> \<not> supported (activation context)"
  shows "Compute F context = Inl (EnforceNotMet ''unsupported activation type'')"
proof (cases "supported (gate_activation context)")
  case True
  with assms have "\<not> supported (activation context)" by simp
  with True show ?thesis
    unfolding Compute_def unactivated_gate_def
    by (simp add: Let_def ActCompute_supported ActCompute_unsupported int_sized_ranges [OF sz])
next
  case False
  then show ?thesis
    unfolding Compute_def unactivated_gate_def
    by (simp add: Let_def ActCompute_unsupported int_sized_ranges [OF sz])
qed

text \<open>
  With a frame size from 32768 on, the forward kernel reaches
  \<^verbatim>\<open>frame_size * frame_size * 2\<close> after its two gate dispatches and has no result.
\<close>

lemma Compute_overflow:
  assumes "supported (gate_activation context)"
    and "int_range (dims0 (Input context))" "int_range (dims1 (HiddenPrev context) * 3)"
    and "\<not> int_range (dims1 (HiddenPrev context) * dims1 (HiddenPrev context) * 2)"
  shows "Compute F (context :: 'a::comm_ring_1 ExecutionContext) = Inl IntOverflow"
proof -
  from assms(3) have "int_range (dims1 (HiddenPrev context))"
    by (simp add: int_range_def)
  with assms show ?thesis
    unfolding Compute_def unactivated_gate_def
    by (simp add: Let_def ActCompute_supported)
qed

section \<open>The backward kernel\<close>

lemma GradCompute_returns:
  assumes sh: "backward_shapes (context :: 'a::comm_ring_1 ExecutionContext)"
    and sz: "int_sized context"
    and ga: "supported (gate_activation context)" and a: "supported (activation context)"
  shows "\<exists>res. GradCompute F m1 m2 context = Inr res \<and>
           (\<forall>i<dims0 (Input context). \<forall>j<3 * dims1 (HiddenPrev context).
              coeff (gate_grad res) i j =
                (if j < dims1 (HiddenPrev context)
                 then act_grad F (gate_activation context)
                        (coeff (Gate context) i j) (coeff (Gate context) i j)
                        (coeff (Hidden_GRAD context) i j *
                         (coeff (HiddenPrev context) i j -
                          coeff (Gate context) i (2 * dims1 (HiddenPrev context) + j)))
                 else if j < 2 * dims1 (HiddenPrev context)
                 then act_grad F (gate_activation context)
                        (coeff (Gate context) i j) (coeff (Gate context) i j)
                        (coeff (reset_hidden_prev_grad res) i (j - dims1 (HiddenPrev context)) *
                         coeff (HiddenPrev context) i (j - dims1 (HiddenPrev context)))
                 else act_grad F (activation context)
                        (coeff (Gate context) i j) (coeff (Gate context) i j)
                        (coeff (Hidden_GRAD context) i (j - 2 * dims1 (HiddenPrev context)) *
                         (1 - coeff (Gate context) i (j - 2 * dims1 (HiddenPrev context)))))) \<and>
           (\<forall>i<dims0 (Input context). \<forall>j<dims1 (HiddenPrev context).
              coeff (reset_hidden_prev_grad res) i j =
                sum_list (map (\<lambda>k.
                    coeff (gate_grad res) i (2 * dims1 (HiddenPrev context) + k) *
                    data (Weight context)
                      (dims1 (HiddenPrev context) * dims1 (HiddenPrev context) * 2 +
                       j * dims1 (HiddenPrev context) + k))
                  [0..<dims1 (HiddenPrev context)])) \<and>
           (\<forall>i<dims0 (Input context). \<forall>j<dims1 (HiddenPrev context).
              coeff (HiddenPrev_GRAD (grad_context res)) i j =
                coeff (reset_hidden_prev_grad res) i j *
                  coeff (Gate context) i (dims1 (HiddenPrev context) + j) +
                coeff (Hidden_GRAD context) i j * coeff (Gate context) i j +
                sum_list (map (\<lambda>k. coeff (gate_grad res) i k *
                    data (Weight context) (j * (2 * dims1 (HiddenPrev context)) + k))
                  [0..<2 * dims1 (HiddenPrev context)])) \<and>
           (\<forall>i<dims0 (Input context). \<forall>j<3 * dims1 (HiddenPrev context).
              coeff (Input_GRAD (grad_context res)) i j = coeff (gate_grad res) i j) \<and>
           (\<forall>j<3 * dims1 (HiddenPrev context).
              coeff (Bias_GRAD (grad_context res)) 0 j =
                sum_list (map (\<lambda>i. coeff (gate_grad res) i j) [0..<dims0 (Input context)]))"
proof -
  let ?b = "dims0 (Input context)" and ?f = "dims1 (HiddenPrev context)"
  let ?ga = "gate_activation context" and ?a = "activation context"
  let ?G = "coeff (Gate context)" and ?hp = "coeff (HiddenPrev context)"
  let ?dh = "coeff (Hidden_GRAD context)"
  let ?u = "slice (Gate context) (0, 0) (?b, ?f)"
  let ?r = "slice (Gate context) (0, ?f) (?b, ?f)"
  let ?c = "slice (Gate context) (0, ?f * 2) (?b, ?f)"
  define dg0 :: "'a Tensor" where
    "dg0 = \<lparr>dims0 = dims0 (Input context), dims1 = dims1 (Input context), data = m1\<rparr>"
  define dg1 where
    "dg1 = assign_slice dg0 (0, 0) (?b, ?f)
       (\<lambda>i j. act_grad F ?ga (?u i j) (?u i j) (?dh i j * (?hp i j - ?c i j)))"
  define dg2 where
    "dg2 = assign_slice dg1 (0, ?f * 2) (?b, ?f)
       (\<lambda>i j. act_grad F ?a (?c i j) (?c i j) (?dh i j * (1 - ?u i j)))"
  define drhp :: "'a Tensor" where
    "drhp = \<lparr>dims0 = dims0 (ResetHiddenPrev context), dims1 = dims1 (ResetHiddenPrev context),
       data = m2\<rparr>\<lparr>data :=
         gemm False True ?b ?f ?f 1 (data dg2, ?f * 2) (?f * 3)
           (data (Weight context), ?f * ?f * 2) ?f 0 (m2, 0) ?f\<rparr>"
  define dw1 where
    "dw1 = (Weight_GRAD context)\<lparr>data :=
       gemm True False ?f ?f ?b 1 (data (ResetHiddenPrev context), 0) ?f
         (data dg2, ?f * 2) (?f * 3) 0 (data (Weight_GRAD context), ?f * ?f * 2) ?f\<rparr>"
  define dg3 where
    "dg3 = assign_slice dg2 (0, ?f) (?b, ?f)
       (\<lambda>i j. act_grad F ?ga (?r i j) (?r i j) (coeff drhp i j * ?hp i j))"
  define dw2 where
    "dw2 = dw1\<lparr>data :=
       gemm True False ?f (?f * 2) ?b 1 (data (HiddenPrev context), 0) ?f
         (data dg3, 0) (?f * 3) 0 (data dw1, 0) (?f * 2)\<rparr>"
  define dhp1 where
    "dhp1 = assign (HiddenPrev_GRAD context) (\<lambda>i j. coeff drhp i j * ?r i j + ?dh i j * ?u i j)"
  define dhp2 where
    "dhp2 = dhp1\<lparr>data :=
       gemm False True ?b ?f (?f * 2) 1 (data dg3, 0) (?f * 3)
         (data (Weight context), 0) (?f * 2) 1 (data dhp1, 0) ?f\<rparr>"
  define dx where "dx = assign (Input_GRAD context) (coeff dg3)"
  define db where
    "db = assign (Bias_GRAD context)
       (\<lambda>i j. sum_list (map (\<lambda>i'. coeff dg3 i' j) [0..<dims0 dg3]))"
  have C: "GradCompute F m1 m2 context =
             Inr \<lparr>grad_context = context\<lparr>Input_GRAD := dx, HiddenPrev_GRAD := dhp2,
                    Weight_GRAD := dw2, Bias_GRAD := db\<rparr>,
                  gate_grad = dg3, reset_hidden_prev_grad = drhp\<rparr>"
    unfolding GradCompute_def db_def dx_def dhp2_def dhp1_def dw2_def dg3_def dw1_def drhp_def
      dg2_def dg1_def dg0_def
    by (simp add: Let_def ActGradCompute_supported ga a int_sized_ranges [OF sz])
  have di: "dims1 (Input context) = ?f * 3"
    and dr: "dims1 (ResetHiddenPrev context) = ?f"
    and dp: "dims0 (HiddenPrev_GRAD context) = ?b" "dims1 (HiddenPrev_GRAD context) = ?f"
    and dxs: "dims0 (Input_GRAD context) = ?b" "dims1 (Input_GRAD context) = ?f * 3"
    and dbs: "dims0 (Bias_GRAD context) = 1" "dims1 (Bias_GRAD context) = ?f * 3"
    using sh by (simp_all add: backward_shapes_def Let_def)
  have d0: "dims1 dg0 = ?f * 3" by (simp add: dg0_def di)
  have d1: "dims1 dg1 = ?f * 3" by (simp add: dg1_def d0)
  have d2: "dims1 dg2 = ?f * 3" by (simp add: dg2_def d1)
  have d3: "dims1 dg3 = ?f * 3" "dims0 dg3 = ?b" by (simp_all add: dg3_def dg2_def dg1_def dg0_def di)
  have ddr: "dims1 drhp = ?f" by (simp add: drhp_def dr)
  have ddp: "dims1 dhp1 = ?f" by (simp add: dhp1_def dp)
  have c1: "coeff dg1 i j =
              (if j < ?f then act_grad F ?ga (?G i j) (?G i j)
                               (?dh i j * (?hp i j - ?G i (2 * ?f + j)))
               else coeff dg0 i j)"
    if "i < ?b" "j < 3 * ?f" for i j
    unfolding dg1_def using that
    by (subst coeff_assign_slice) (simp_all add: d0 slice_def mult.commute [of ?f 2])
  have c2: "coeff dg2 i j =
              (if 2 * ?f \<le> j then act_grad F ?a (?G i j) (?G i j)
                               (?dh i (j - 2 * ?f) * (1 - ?G i (j - 2 * ?f)))
               else coeff dg1 i j)"
    if "i < ?b" "j < 3 * ?f" for i j
    unfolding dg2_def using that
    by (subst coeff_assign_slice) (simp_all add: d1 slice_def mult.commute [of ?f 2])
  have cr: "coeff drhp i j =
              sum_list (map (\<lambda>k. coeff dg2 i (2 * ?f + k) *
                  data (Weight context) (?f * ?f * 2 + j * ?f + k)) [0..<?f])"
    if "i < ?b" "j < ?f" for i j
  proof -
    have n: "0 + ?f \<le> ?f" by simp
    have g: "data dg2 (?f * 2 + i * (?f * 3) + k) = coeff dg2 i (2 * ?f + k)" for k
      by (simp add: coeff_def d2 add.assoc add.left_commute mult.commute [of ?f 2])
    have "coeff drhp i j =
            gemm False True ?b ?f ?f 1 (data dg2, ?f * 2) (?f * 3)
              (data (Weight context), ?f * ?f * 2) ?f 0 (m2, 0) ?f (i * ?f + j)"
      by (simp add: drhp_def coeff_def dr)
    also note gemm_rowmajor [OF that(2) n]
    finally show ?thesis using that by (simp add: g)
  qed
  have c3: "coeff dg3 i j =
              (if ?f \<le> j \<and> j < 2 * ?f
               then act_grad F ?ga (?G i j) (?G i j) (coeff drhp i (j - ?f) * ?hp i (j - ?f))
               else coeff dg2 i j)"
    if "i < ?b" "j < 3 * ?f" for i j
    unfolding dg3_def using that
    by (subst coeff_assign_slice) (simp_all add: d2 slice_def)
  have cp1: "coeff dhp1 i j = coeff drhp i j * ?G i (?f + j) + ?dh i j * ?G i j"
    if "i < ?b" "j < ?f" for i j
    unfolding dhp1_def using that by (simp add: coeff_assign dp slice_def)
  have cp2: "coeff dhp2 i j =
               coeff dhp1 i j +
               sum_list (map (\<lambda>k. coeff dg3 i k * data (Weight context) (j * (2 * ?f) + k))
                 [0..<2 * ?f])"
    if "i < ?b" "j < ?f" for i j
  proof -
    have n: "0 + ?f \<le> ?f" by simp
    have g: "data dg3 (i * (?f * 3) + k) = coeff dg3 i k" for k
      by (simp add: coeff_def d3)
    show ?thesis
      unfolding dhp2_def coeff_gemm [OF ddp that(2) n]
      using that by (simp add: g mult.commute [of ?f 2])
  qed
  have cx: "coeff dx i j = coeff dg3 i j" if "i < ?b" "j < 3 * ?f" for i j
    unfolding dx_def using that by (simp add: coeff_assign dxs)
  have cb: "coeff db 0 j = sum_list (map (\<lambda>i. coeff dg3 i j) [0..<?b])"
    if "j < 3 * ?f" for j
    unfolding db_def using that by (simp add: coeff_assign dbs d3)
  have DG: "coeff dg3 i j =
              (if j < ?f
               then act_grad F ?ga (?G i j) (?G i j) (?dh i j * (?hp i j - ?G i (2 * ?f + j)))
               else if j < 2 * ?f
               then act_grad F ?ga (?G i j) (?G i j) (coeff drhp i (j - ?f) * ?hp i (j - ?f))
               else act_grad F ?a (?G i j) (?G i j)
                      (?dh i (j - 2 * ?f) * (1 - ?G i (j - 2 * ?f))))"
    if "i < ?b" "j < 3 * ?f" for i j
    using that by (simp add: c3 c2 c1)
  have DR: "coeff drhp i j =
              sum_list (map (\<lambda>k. coeff dg3 i (2 * ?f + k) *
                  data (Weight context) (?f * ?f * 2 + j * ?f + k)) [0..<?f])"
    if "i < ?b" "j < ?f" for i j
  proof -
    have "sum_list (map (\<lambda>k. coeff dg2 i (2 * ?f + k) *
                  data (Weight context) (?f * ?f * 2 + j * ?f + k)) [0..<?f]) =
          sum_list (map (\<lambda>k. coeff dg3 i (2 * ?f + k) *
                  data (Weight context) (?f * ?f * 2 + j * ?f + k)) [0..<?f])"
      by (rule sum_list_upt_cong) (simp add: c3 that)
    then show ?thesis using cr [OF that] by simp
  qed
  show ?thesis
    unfolding C using DG DR cp1 cp2 cx cb by simp
qed

lemma GradCompute_unsupported:
  assumes sz: "int_sized (context :: 'a::comm_ring_1 ExecutionContext)"
    and "\<not> supported (gate_activation context) \<or> \<not> supported (activation context)"
  shows "GradCompute F m1 m2 context = Inl (EnforceNotMet ''unsupported activation type'')"
proof (cases "supported (gate_activation context)")
  case True
  with assms have "\<not> supported (activation context)" by simp
  with True show ?thesis
    unfolding GradCompute_def
    by (simp add: Let_def ActGradCompute_supported ActGradCompute_unsupported
        int_sized_ranges [OF sz])
next
  case False
  then show ?thesis
    unfolding GradCompute_def
    by (simp add: Let_def ActGradCompute_unsupported int_sized_ranges [OF sz])
qed

text \<open>The same product ends a backward call, after its first two dispatches.\<close>

lemma GradCompute_overflow:
  assumes "supported (gate_activation context)" "supported (activation context)"
    and "int_range (dims0 (Input context))" "int_range (dims1 (HiddenPrev context) * 3)"
    and "\<not> int_range (dims1 (HiddenPrev context) * dims1 (HiddenPrev context) * 2)"
  shows "GradCompute F m1 m2 (context :: 'a::comm_ring_1 ExecutionContext) = Inl IntOverflow"
proof -
  from assms(4) have "int_range (dims1 (HiddenPrev context))"
    "int_range (dims1 (HiddenPrev context) * 2)"
    by (simp_all add: int_range_def)
  with assms show ?thesis
    unfolding GradCompute_def
    by (simp add: Let_def ActGradCompute_supported)
qed

section \<open>Evaluating the concrete run\<close>

lemma sum_upt_2: "sum_list (map f [0..<2]) = (f 0 + f 1 :: 'a::comm_ring_1)"
proof -
  have "[0..<2] = [0, 1::nat]" by code_simp
  then show ?thesis by simp
qed

lemma sum_upt_4: "sum_list (map f [0..<4]) = (f 0 + f 1 + f 2 + f 3 :: 'a::comm_ring_1)"
proof -
  have "[0..<4] = [0, 1, 2, 3::nat]" by code_simp
  then show ?thesis by (simp add: add.assoc)
qed

lemma less_2_cases_nat: "i < 2 \<Longrightarrow> i = 0 \<or> i = (1::nat)"
  by auto

lemma less_6_cases_nat: "j < 6 \<Longrightarrow> j = 0 \<or> j = 1 \<or> j = 2 \<or> j = 3 \<or> j = 4 \<or> j = (5::nat)"
  by auto

lemma ex_fields:
  "dims0 (Input example_context) = 2" "dims1 (HiddenPrev example_context) = 2"
  "gate_activation example_context = 3" "activation example_context = 3"
  "coeff (Input example_context) i j = buffer [1, 2, - 3, 0, 1, - 1, 0, - 1, 2, 1, - 2, 3] (i * 6 + j)"
  "data (Bias example_context) n = buffer [1, - 1, 0, 2, 1, 0] n"
  "coeff (HiddenPrev example_context) i j = buffer [1, 2, 3, - 1] (i * 2 + j)"
  "data (Weight example_context) n = buffer [1, 0, 2, - 1, 0, 1, 1, 3, 2, 1, - 1, 1] n"
  "coeff (Hidden_GRAD example_context) i j = buffer [1, - 2, 3, 1] (i * 2 + j)"
  by (simp_all add: example_context_def coeff_def)

lemma ex_shapes: "forward_shapes example_context"
  by (simp add: forward_shapes_def example_context_def)

lemma ex_sized: "int_sized example_context"
  by (simp add: int_sized_def int_range_def example_context_def)

lemma ex_supported:
  "supported (gate_activation example_context)" "supported (activation example_context)"
  by (simp_all add: ex_fields supported_iff)

lemma act_relu: "act test_activation_op 3 v = max 0 v"
  by (simp add: act_def test_activation_op_def identity_def sigmoid_def tanh_def)

lemma exg_fields:
  "dims0 (Input example_grad_context) = 2" "dims1 (HiddenPrev example_grad_context) = 2"
  "gate_activation example_grad_context = 3" "activation example_grad_context = 3"
  "coeff (Gate example_grad_context) i j =
     buffer [3, 3, 1, 7, 0, 14, 4, 0, 7, 0, 41, 24] (i * 6 + j)"
  "coeff (HiddenPrev example_grad_context) i j = buffer [1, 2, 3, - 1] (i * 2 + j)"
  "data (Weight example_grad_context) n = buffer [1, 0, 2, - 1, 0, 1, 1, 3, 2, 1, - 1, 1] n"
  "coeff (Weight example_grad_context) i j =
     buffer [1, 0, 2, - 1, 0, 1, 1, 3, 2, 1, - 1, 1] (i * 6 + j)"
  "coeff (Hidden_GRAD example_grad_context) i j = buffer [1, - 2, 3, 1] (i * 2 + j)"
  by (simp_all add: example_grad_context_def example_context_def coeff_def)

lemma exg_shapes: "backward_shapes example_grad_context"
  by (simp add: backward_shapes_def example_grad_context_def example_context_def)

lemma exg_sized: "int_sized example_grad_context"
  by (simp add: int_sized_def int_range_def example_grad_context_def example_context_def)

lemma exg_supported:
  "supported (gate_activation example_grad_context)"
  "supported (activation example_grad_context)"
  by (simp_all add: exg_fields supported_iff)

lemma act_grad_relu: "act_grad test_activation_op 3 x y dy = (if y > 0 then dy else 0)"
  by (simp add: act_grad_def test_activation_op_def identity_def sigmoid_def tanh_def)

lemma example_unactivated_gate:
  "\<exists>gate. unactivated_gate example_context = Inr gate \<and>
     (\<forall>i<2. \<forall>j<6. coeff gate i j = buffer [3, 3, 1, 7, 2, - 1, 4, - 3, 7, - 3, - 1, 3] (i * 6 + j))"
proof -
  from unactivated_gate_returns [OF ex_shapes ex_sized]
  obtain gate where U: "unactivated_gate example_context = Inr gate"
    and c: "\<forall>i<2. \<forall>j<6. coeff gate i j =
      (if j < 4
       then coeff (Input example_context) i j + data (Bias example_context) j +
            sum_list (map (\<lambda>k. coeff (HiddenPrev example_context) i k *
                data (Weight example_context) (k * 4 + j)) [0..<2])
       else coeff (Input example_context) i j + data (Bias example_context) j)"
    unfolding ex_fields by auto
  have "coeff gate i j = buffer [3, 3, 1, 7, 2, - 1, 4, - 3, 7, - 3, - 1, 3] (i * 6 + j)"
    if "i < 2" "j < 6" for i j
    using less_2_cases_nat [OF that(1)] less_6_cases_nat [OF that(2)]
    by (elim disjE) (simp_all add: c [rule_format] sum_upt_2 ex_fields buffer_def)
  with U show ?thesis by blast
qed

lemma example_run_values:
  "\<exists>out. example_run = Inr out \<and>
     (\<forall>i<2. \<forall>j<6. coeff (Gate out) i j =
        buffer [3, 3, 1, 7, 0, 14, 4, 0, 7, 0, 41, 24] (i * 6 + j)) \<and>
     (\<forall>i<2. \<forall>j<2. coeff (ResetHiddenPrev out) i j = buffer [1, 14, 21, 0] (i * 2 + j)) \<and>
     (\<forall>i<2. \<forall>j<2. coeff (Hidden out) i j = buffer [3, - 22, - 111, 24] (i * 2 + j))"
proof -
  from example_unactivated_gate
  obtain gate where U: "unactivated_gate example_context = Inr gate"
    and g: "\<forall>i<2. \<forall>j<6. coeff gate i j =
              buffer [3, 3, 1, 7, 2, - 1, 4, - 3, 7, - 3, - 1, 3] (i * 6 + j)"
    by blast
  from Compute_returns [OF ex_shapes ex_sized ex_supported U, of test_activation_op]
  obtain out where C: "Compute test_activation_op example_context = Inr out"
    and G: "\<forall>i<2. \<forall>j<6.
              coeff (Gate out) i j =
                (if j < 4 then act test_activation_op 3 (coeff gate i j)
                 else act test_activation_op 3
                   (coeff gate i j +
                    sum_list (map (\<lambda>k. coeff (ResetHiddenPrev out) i k *
                        data (Weight example_context) (8 + k * 2 + (j - 4))) [0..<2])))"
    and R: "\<forall>i<2. \<forall>j<2.
              coeff (ResetHiddenPrev out) i j =
                coeff (Gate out) i (2 + j) * coeff (HiddenPrev example_context) i j"
    and H: "\<forall>i<2. \<forall>j<2.
              coeff (Hidden out) i j =
                coeff (Gate out) i j *
                  (coeff (HiddenPrev example_context) i j - coeff (Gate out) i (4 + j)) +
                coeff (Gate out) i (4 + j)"
    unfolding ex_fields by auto
  have r: "coeff (ResetHiddenPrev out) i j = buffer [1, 14, 21, 0] (i * 2 + j)"
    if "i < 2" "j < 2" for i j
    using less_2_cases_nat [OF that(1)] less_2_cases_nat [OF that(2)]
    by (elim disjE)
      (simp_all add: R [rule_format] G [rule_format] g [rule_format] act_relu ex_fields
        buffer_def)
  have c: "coeff (Gate out) i j = buffer [3, 3, 1, 7, 0, 14, 4, 0, 7, 0, 41, 24] (i * 6 + j)"
    if "i < 2" "j < 6" for i j
    using less_2_cases_nat [OF that(1)] less_6_cases_nat [OF that(2)]
    by (elim disjE)
      (simp_all add: G [rule_format] g [rule_format] r sum_upt_2 act_relu ex_fields buffer_def)
  have h: "coeff (Hidden out) i j = buffer [3, - 22, - 111, 24] (i * 2 + j)"
    if "i < 2" "j < 2" for i j
    using less_2_cases_nat [OF that(1)] less_2_cases_nat [OF that(2)]
    by (elim disjE) (simp_all add: H [rule_format] c ex_fields buffer_def)
  from C r c h show ?thesis unfolding example_run_def by blast
qed

lemma example_run_Inr:
  assumes "Compute test_activation_op example_context = Inr out"
  shows "\<forall>i<2. \<forall>j<6. coeff (Gate out) i j =
           buffer [3, 3, 1, 7, 0, 14, 4, 0, 7, 0, 41, 24] (i * 6 + j)"
    and "\<forall>i<2. \<forall>j<2. coeff (ResetHiddenPrev out) i j = buffer [1, 14, 21, 0] (i * 2 + j)"
    and "\<forall>i<2. \<forall>j<2. coeff (Hidden out) i j = buffer [3, - 22, - 111, 24] (i * 2 + j)"
  using example_run_values assms unfolding example_run_def by auto

lemma example_grad_run_values:
  "\<exists>res. example_grad_run = Inr res \<and>
     (\<forall>i<2. \<forall>j<6. coeff (gate_grad res) i j =
        buffer [1, 24, 4, 8, 0, 4, - 114, 0, - 51, 0, - 9, 1] (i * 6 + j)) \<and>
     (\<forall>i<2. \<forall>j<2. coeff (reset_hidden_prev_grad res) i j =
        buffer [4, 4, - 17, 10] (i * 2 + j)) \<and>
     (\<forall>i<2. \<forall>j<2. coeff (HiddenPrev_GRAD (grad_context res)) i j =
        buffer [8, 74, - 323, - 51] (i * 2 + j)) \<and>
     (\<forall>i<2. \<forall>j<6. coeff (Input_GRAD (grad_context res)) i j =
        buffer [1, 24, 4, 8, 0, 4, - 114, 0, - 51, 0, - 9, 1] (i * 6 + j)) \<and>
     (\<forall>j<6. coeff (Bias_GRAD (grad_context res)) 0 j = buffer [- 113, 24, - 47, 8, - 9, 5] j)"
proof -
  let ?G = "coeff (Gate example_grad_context)"
  let ?hp = "coeff (HiddenPrev example_grad_context)"
  let ?dh = "coeff (Hidden_GRAD example_grad_context)"
  let ?W = "data (Weight example_grad_context)"
  from GradCompute_returns [OF exg_shapes exg_sized exg_supported,
      of test_activation_op "buffer []" "buffer []"]
  obtain res where
    C: "GradCompute test_activation_op (buffer []) (buffer []) example_grad_context = Inr res"
    and DG: "\<forall>i<2. \<forall>j<6.
      coeff (gate_grad res) i j =
        (if j < 2
         then act_grad test_activation_op 3 (?G i j) (?G i j)
                (?dh i j * (?hp i j - ?G i (4 + j)))
         else if j < 4
         then act_grad test_activation_op 3 (?G i j) (?G i j)
                (coeff (reset_hidden_prev_grad res) i (j - 2) * ?hp i (j - 2))
         else act_grad test_activation_op 3 (?G i j) (?G i j)
                (?dh i (j - 4) * (1 - ?G i (j - 4))))"
    and DR: "\<forall>i<2. \<forall>j<2.
      coeff (reset_hidden_prev_grad res) i j =
        sum_list (map (\<lambda>k. coeff (gate_grad res) i (4 + k) * ?W (8 + j * 2 + k)) [0..<2])"
    and DH: "\<forall>i<2. \<forall>j<2.
      coeff (HiddenPrev_GRAD (grad_context res)) i j =
        coeff (reset_hidden_prev_grad res) i j * ?G i (2 + j) + ?dh i j * ?G i j +
        sum_list (map (\<lambda>k. coeff (gate_grad res) i k * ?W (j * 4 + k)) [0..<4])"
    and DX: "\<forall>i<2. \<forall>j<6.
      coeff (Input_GRAD (grad_context res)) i j = coeff (gate_grad res) i j"
    and DB: "\<forall>j<6.
      coeff (Bias_GRAD (grad_context res)) 0 j =
        sum_list (map (\<lambda>i. coeff (gate_grad res) i j) [0..<2])"
    unfolding exg_fields(1-4) by auto
  have r: "coeff (reset_hidden_prev_grad res) i j = buffer [4, 4, - 17, 10] (i * 2 + j)"
    if "i < 2" "j < 2" for i j
    using less_2_cases_nat [OF that(1)] less_2_cases_nat [OF that(2)]
    by (elim disjE)
      (simp_all add: DR [rule_format] DG [rule_format] sum_upt_2 act_grad_relu exg_fields
        buffer_def)
  have g: "coeff (gate_grad res) i j =
             buffer [1, 24, 4, 8, 0, 4, - 114, 0, - 51, 0, - 9, 1] (i * 6 + j)"
    if "i < 2" "j < 6" for i j
    using less_2_cases_nat [OF that(1)] less_6_cases_nat [OF that(2)]
    by (elim disjE) (simp_all add: DG [rule_format] r act_grad_relu exg_fields buffer_def)
  have h: "coeff (HiddenPrev_GRAD (grad_context res)) i j =
             buffer [8, 74, - 323, - 51] (i * 2 + j)"
    if "i < 2" "j < 2" for i j
    using less_2_cases_nat [OF that(1)] less_2_cases_nat [OF that(2)]
    by (elim disjE) (simp_all add: DH [rule_format] r g sum_upt_4 exg_fields buffer_def)
  have x: "coeff (Input_GRAD (grad_context res)) i j =
             buffer [1, 24, 4, 8, 0, 4, - 114, 0, - 51, 0, - 9, 1] (i * 6 + j)"
    if "i < 2" "j < 6" for i j
    using that by (simp add: DX [rule_format] g)
  have b: "coeff (Bias_GRAD (grad_context res)) 0 j = buffer [- 113, 24, - 47, 8, - 9, 5] j"
    if "j < 6" for j
    using less_6_cases_nat [OF that]
    by (elim disjE) (simp_all add: DB [rule_format] g sum_upt_2 buffer_def)
  from C r g h x b show ?thesis unfolding example_grad_run_def by blast
qed

lemma example_grad_run_Inr:
  assumes "GradCompute test_activation_op (buffer []) (buffer []) example_grad_context = Inr res"
  shows "\<forall>i<2. \<forall>j<6. coeff (gate_grad res) i j =
           buffer [1, 24, 4, 8, 0, 4, - 114, 0, - 51, 0, - 9, 1] (i * 6 + j)"
    and "\<forall>i<2. \<forall>j<2. coeff (reset_hidden_prev_grad res) i j =
           buffer [4, 4, - 17, 10] (i * 2 + j)"
    and "\<forall>i<2. \<forall>j<2. coeff (HiddenPrev_GRAD (grad_context res)) i j =
           buffer [8, 74, - 323, - 51] (i * 2 + j)"
    and "\<forall>i<2. \<forall>j<6. coeff (Input_GRAD (grad_context res)) i j =
           buffer [1, 24, 4, 8, 0, 4, - 114, 0, - 51, 0, - 9, 1] (i * 6 + j)"
    and "\<forall>j<6. coeff (Bias_GRAD (grad_context res)) 0 j =
           buffer [- 113, 24, - 47, 8, - 9, 5] j"
  using example_grad_run_values assms unfolding example_grad_run_def by auto

text \<open>
  The backward context of the concrete run holds what the forward run on
  \<open>example_context\<close> produces.
\<close>

lemma example_grad_context_holds_forward_run:
  "\<exists>out. Compute test_activation_op example_context = Inr out \<and>
     (\<forall>i<2. \<forall>j<6. coeff (Gate example_grad_context) i j = coeff (Gate out) i j) \<and>
     (\<forall>i<2. \<forall>j<2. coeff (ResetHiddenPrev example_grad_context) i j =
        coeff (ResetHiddenPrev out) i j)"
proof -
  have r: "coeff (ResetHiddenPrev example_grad_context) i j = buffer [1, 14, 21, 0] (i * 2 + j)"
    for i j
    by (simp add: example_grad_context_def example_context_def coeff_def)
  from example_run_values show ?thesis
    unfolding example_run_def by (auto simp: exg_fields r)
qed

section \<open>The claims\<close>

text \<open>
  C1. For every valid forward call (shapes as shape inference fixes them, sizes within
  \<^verbatim>\<open>int\<close>, both activation tags supported) the call returns, and its
  \<open>Hidden\<close> output is \<open>u * (HiddenPrev - c) + c\<close> elementwise,
  where \<open>u\<close> is the slice \<open>Gate[:, 0:f]\<close> and \<open>c\<close> the
  slice \<open>Gate[:, 2f:3f]\<close> of the \<open>Gate\<close> output of the same call.
\<close>

theorem Hidden_update_gate_blend:
  assumes "forward_shapes (context :: 'a::comm_ring_1 ExecutionContext)"
    and "int_sized context"
    and "supported (gate_activation context)" "supported (activation context)"
  shows "\<exists>out. Compute F context = Inr out \<and>
           (\<forall>i<dims0 (Input context). \<forall>j<dims1 (HiddenPrev context).
              coeff (Hidden out) i j =
                slice (Gate out) (0, 0) (dims0 (Input context), dims1 (HiddenPrev context)) i j *
                  (coeff (HiddenPrev context) i j -
                   slice (Gate out) (0, 2 * dims1 (HiddenPrev context))
                     (dims0 (Input context), dims1 (HiddenPrev context)) i j) +
                slice (Gate out) (0, 2 * dims1 (HiddenPrev context))
                  (dims0 (Input context), dims1 (HiddenPrev context)) i j)"
proof -
  from unactivated_gate_returns [OF assms(1) assms(2)]
  obtain gate where U: "unactivated_gate context = Inr gate" by blast
  from Compute_returns [OF assms U, of F] show ?thesis
    by (elim exE conjE, intro exI conjI) (assumption, simp add: slice_def)
qed

theorem Hidden_update_gate_blend_witness:
  "forward_shapes example_context \<and> int_sized example_context \<and>
   supported (gate_activation example_context) \<and> supported (activation example_context) \<and>
   (\<exists>out. Compute test_activation_op example_context = Inr out \<and>
      slice (Gate out) (0, 0) (2, 2) 1 0 = 4 \<and>
      slice (Gate out) (0, 4) (2, 2) 1 0 = 41 \<and>
      coeff (HiddenPrev example_context) 1 0 = 3 \<and>
      coeff (Hidden out) 1 0 = - 111)"
proof -
  from Hidden_update_gate_blend [OF ex_shapes ex_sized ex_supported, of test_activation_op]
  obtain out where o: "Compute test_activation_op example_context = Inr out"
    and h: "coeff (Hidden out) 1 0 =
              slice (Gate out) (0, 0) (2, 2) 1 0 *
                (coeff (HiddenPrev example_context) 1 0 - slice (Gate out) (0, 4) (2, 2) 1 0) +
              slice (Gate out) (0, 4) (2, 2) 1 0"
    by (auto simp: ex_fields)
  have u: "slice (Gate out) (0, 0) (2, 2) 1 0 = 4"
    and c: "slice (Gate out) (0, 4) (2, 2) 1 0 = 41"
    by (simp_all add: slice_def example_run_Inr(1) [OF o, rule_format] buffer_def)
  have p: "coeff (HiddenPrev example_context) 1 0 = 3"
    by (simp add: ex_fields buffer_def)
  have "coeff (Hidden out) 1 0 = - 111"
    unfolding h u c p by simp
  with ex_shapes ex_sized ex_supported o u c p show ?thesis by blast
qed

text \<open>
  C2, as the code has it. For every valid forward call (shapes as shape inference fixes
  them, sizes within \<^verbatim>\<open>int\<close>, both activation tags supported) the
  three column slices of the \<open>Gate\<close> output are the gate activation of the
  update pre-activation, the gate activation of the reset pre-activation and the activation
  of the candidate pre-activation; no slice is left in pre-activation form. A
  pre-activation is the \<open>Input\<close> coefficient plus the bias of its column plus
  what the \<open>gemm\<close> of the kernel adds, and the two \<open>gemm\<close> calls
  read the weight buffer as two packed row-major blocks: the first reads the \<open>f
  \<times> 2f\<close> matrix in its first \<open>2f\<^sup>2\<close> elements (offset
  \<open>k * 2f + j\<close> for column \<open>j < 2f\<close>), the second the \<open>f
  \<times> f\<close> matrix in its remaining elements (offset \<open>2f\<^sup>2 + k * f +
  j\<close> for column \<open>j < f\<close> of the candidate slice), with the
  \<open>ResetHiddenPrev\<close> output as its left operand.
\<close>

theorem Gate_slices_activated:
  assumes "forward_shapes (context :: 'a::comm_ring_1 ExecutionContext)"
    and "int_sized context"
    and "supported (gate_activation context)" "supported (activation context)"
  shows "\<exists>out. Compute F context = Inr out \<and>
           (\<forall>i<dims0 (Input context). \<forall>j<dims1 (HiddenPrev context).
              slice (Gate out) (0, 0) (dims0 (Input context), dims1 (HiddenPrev context)) i j =
                act F (gate_activation context)
                  (coeff (Input context) i j + data (Bias context) j +
                   sum_list (map (\<lambda>k. coeff (HiddenPrev context) i k *
                       data (Weight context) (k * (2 * dims1 (HiddenPrev context)) + j))
                     [0..<dims1 (HiddenPrev context)])) \<and>
              slice (Gate out) (0, dims1 (HiddenPrev context))
                  (dims0 (Input context), dims1 (HiddenPrev context)) i j =
                act F (gate_activation context)
                  (coeff (Input context) i (dims1 (HiddenPrev context) + j) +
                   data (Bias context) (dims1 (HiddenPrev context) + j) +
                   sum_list (map (\<lambda>k. coeff (HiddenPrev context) i k *
                       data (Weight context)
                         (k * (2 * dims1 (HiddenPrev context)) + (dims1 (HiddenPrev context) + j)))
                     [0..<dims1 (HiddenPrev context)])) \<and>
              slice (Gate out) (0, 2 * dims1 (HiddenPrev context))
                  (dims0 (Input context), dims1 (HiddenPrev context)) i j =
                act F (activation context)
                  (coeff (Input context) i (2 * dims1 (HiddenPrev context) + j) +
                   data (Bias context) (2 * dims1 (HiddenPrev context) + j) +
                   sum_list (map (\<lambda>k. coeff (ResetHiddenPrev out) i k *
                       data (Weight context)
                         (dims1 (HiddenPrev context) * dims1 (HiddenPrev context) * 2 +
                          k * dims1 (HiddenPrev context) + j))
                     [0..<dims1 (HiddenPrev context)])))"
proof -
  from unactivated_gate_returns [OF assms(1) assms(2)]
  obtain gate where U: "unactivated_gate context = Inr gate"
    and g: "\<forall>i<dims0 (Input context). \<forall>j<3 * dims1 (HiddenPrev context).
              coeff gate i j =
                (if j < 2 * dims1 (HiddenPrev context)
                 then coeff (Input context) i j + data (Bias context) j +
                      sum_list (map (\<lambda>k. coeff (HiddenPrev context) i k *
                          data (Weight context) (k * (2 * dims1 (HiddenPrev context)) + j))
                        [0..<dims1 (HiddenPrev context)])
                 else coeff (Input context) i j + data (Bias context) j)"
    by blast
  from Compute_returns [OF assms U, of F] show ?thesis
    by (elim exE conjE, intro exI conjI) (assumption, simp add: slice_def g)
qed

theorem Gate_slices_activated_witness:
  "forward_shapes example_context \<and> int_sized example_context \<and>
   supported (gate_activation example_context) \<and> supported (activation example_context) \<and>
   (\<exists>out. Compute test_activation_op example_context = Inr out \<and>
      slice (Gate out) (0, 0) (2, 2) 1 1 = act test_activation_op 3 (- 3) \<and>
      slice (Gate out) (0, 0) (2, 2) 1 1 = 0 \<and>
      slice (Gate out) (0, 2) (2, 2) 1 1 = act test_activation_op 3 (- 3) \<and>
      slice (Gate out) (0, 4) (2, 2) 0 0 = act test_activation_op 3 (- 10) \<and>
      slice (Gate out) (0, 4) (2, 2) 1 1 = act test_activation_op 3 24)"
proof -
  from Gate_slices_activated [OF ex_shapes ex_sized ex_supported, of test_activation_op]
  obtain out where o: "Compute test_activation_op example_context = Inr out"
    and h: "\<forall>i<2. \<forall>j<2.
      slice (Gate out) (0, 0) (2, 2) i j =
        act test_activation_op 3
          (coeff (Input example_context) i j + data (Bias example_context) j +
           sum_list (map (\<lambda>k. coeff (HiddenPrev example_context) i k *
               data (Weight example_context) (k * (2 * 2) + j)) [0..<2])) \<and>
      slice (Gate out) (0, 2) (2, 2) i j =
        act test_activation_op 3
          (coeff (Input example_context) i (2 + j) + data (Bias example_context) (2 + j) +
           sum_list (map (\<lambda>k. coeff (HiddenPrev example_context) i k *
               data (Weight example_context) (k * (2 * 2) + (2 + j))) [0..<2])) \<and>
      slice (Gate out) (0, 2 * 2) (2, 2) i j =
        act test_activation_op 3
          (coeff (Input example_context) i (2 * 2 + j) + data (Bias example_context) (2 * 2 + j) +
           sum_list (map (\<lambda>k. coeff (ResetHiddenPrev out) i k *
               data (Weight example_context) (2 * 2 * 2 + k * 2 + j)) [0..<2]))"
    unfolding ex_fields by blast
  note r = example_run_Inr(2) [OF o, rule_format]
  have u: "slice (Gate out) (0, 0) (2, 2) 1 1 = act test_activation_op 3 (- 3)"
    using h [rule_format, of 1 1] by (simp add: sum_upt_2 ex_fields buffer_def)
  have rr: "slice (Gate out) (0, 2) (2, 2) 1 1 = act test_activation_op 3 (- 3)"
    using h [rule_format, of 1 1] by (simp add: sum_upt_2 ex_fields buffer_def)
  have c0: "slice (Gate out) (0, 4) (2, 2) 0 0 = act test_activation_op 3 (- 10)"
    using h [rule_format, of 0 0] by (simp add: sum_upt_2 ex_fields buffer_def r)
  have c1: "slice (Gate out) (0, 4) (2, 2) 1 1 = act test_activation_op 3 24"
    using h [rule_format, of 1 1] by (simp add: sum_upt_2 ex_fields buffer_def r)
  have u0: "slice (Gate out) (0, 0) (2, 2) 1 1 = 0"
    unfolding u by (simp add: act_relu)
  from ex_shapes ex_sized ex_supported o u u0 rr c0 c1 show ?thesis by blast
qed

text \<open>
  C2, as the claim states it, takes the recurrent terms of steps 2 and 5 of the
  specification, which multiply by \<open>Weight[:, 0:2f]\<close> and \<open>Weight[:,
  2f:3f]\<close>, columns of the row-major \<open>f \<times> 3f\<close> matrix. On the
  concrete run (\<open>f = 2\<close>, both activations relu) the update gate of the
  \<open>Gate\<close> output is \<open>3\<close> at \<open>(0, 0)\<close>, where the gate
  activation of that pre-activation is \<open>5\<close>.
\<close>

theorem Gate_slices_row_major_weight_counterexample:
  "example_run = Inr (projr example_run) \<and>
   slice (Gate (projr example_run)) (0, 0) (2, 2) 0 0 = 3 \<and>
   act test_activation_op (gate_activation example_context)
     (coeff (Input example_context) 0 0 + data (Bias example_context) 0 +
      (coeff (HiddenPrev example_context) 0 0 * coeff (Weight example_context) 0 0 +
       coeff (HiddenPrev example_context) 0 1 * coeff (Weight example_context) 1 0)) = 5 \<and>
   slice (Gate (projr example_run)) (0, 0) (2, 2) 0 0 \<noteq>
   act test_activation_op (gate_activation example_context)
     (coeff (Input example_context) 0 0 + data (Bias example_context) 0 +
      (coeff (HiddenPrev example_context) 0 0 * coeff (Weight example_context) 0 0 +
       coeff (HiddenPrev example_context) 0 1 * coeff (Weight example_context) 1 0))"
proof -
  from example_run_values obtain out where o: "example_run = Inr out"
    and G: "\<forall>i<2. \<forall>j<6. coeff (Gate out) i j =
              buffer [3, 3, 1, 7, 0, 14, 4, 0, 7, 0, 41, 24] (i * 6 + j)"
    by blast
  have w: "coeff (Weight example_context) i j =
             buffer [1, 0, 2, - 1, 0, 1, 1, 3, 2, 1, - 1, 1] (i * 6 + j)" for i j
    by (simp add: example_context_def coeff_def)
  have p: "slice (Gate (projr example_run)) (0, 0) (2, 2) 0 0 = 3"
    unfolding o by (simp add: slice_def G [rule_format] buffer_def)
  have q: "act test_activation_op (gate_activation example_context)
     (coeff (Input example_context) 0 0 + data (Bias example_context) 0 +
      (coeff (HiddenPrev example_context) 0 0 * coeff (Weight example_context) 0 0 +
       coeff (HiddenPrev example_context) 0 1 * coeff (Weight example_context) 1 0)) = 5"
    by (simp add: ex_fields w buffer_def act_relu)
  have e: "example_run = Inr (projr example_run)" unfolding o by simp
  show ?thesis unfolding p q using e by simp
qed

text \<open>
  C3, as the code has it. The first \<open>gemm\<close> of the forward kernel accumulates
  with \<open>beta = 1\<close> into the first \<open>2f\<close> columns of
  \<open>Gate\<close>, and it reads the weight buffer with row stride \<open>2f\<close>:
  the first \<open>2f\<^sup>2\<close> elements of the buffer are a row-major \<open>f
  \<times> 2f\<close> matrix, whose element \<open>(k, j)\<close> is at offset \<open>k *
  2f + j\<close>. For every valid forward call (shapes as shape inference fixes them, sizes
  within \<^verbatim>\<open>int\<close>, both activation tags supported), after that
  statement the first two gate slices are the first \<open>2f\<close> columns of
  \<open>Input\<close> plus the broadcast bias plus the product of
  \<open>HiddenPrev\<close> with that matrix; the \<open>Gate\<close> output holds their
  gate activation.
\<close>

theorem Gate_update_reset_recurrent_term:
  assumes "forward_shapes (context :: 'a::comm_ring_1 ExecutionContext)"
    and "int_sized context"
    and "supported (gate_activation context)" "supported (activation context)"
  shows "\<exists>gate out. unactivated_gate context = Inr gate \<and> Compute F context = Inr out \<and>
           (\<forall>i<dims0 (Input context). \<forall>j<2 * dims1 (HiddenPrev context).
              coeff gate i j =
                coeff (Input context) i j + data (Bias context) j +
                sum_list (map (\<lambda>k. coeff (HiddenPrev context) i k *
                    data (Weight context) (k * (2 * dims1 (HiddenPrev context)) + j))
                  [0..<dims1 (HiddenPrev context)]) \<and>
              coeff (Gate out) i j = act F (gate_activation context) (coeff gate i j))"
proof -
  from unactivated_gate_returns [OF assms(1) assms(2)]
  obtain gate where U: "unactivated_gate context = Inr gate"
    and g: "\<forall>i<dims0 (Input context). \<forall>j<3 * dims1 (HiddenPrev context).
              coeff gate i j =
                (if j < 2 * dims1 (HiddenPrev context)
                 then coeff (Input context) i j + data (Bias context) j +
                      sum_list (map (\<lambda>k. coeff (HiddenPrev context) i k *
                          data (Weight context) (k * (2 * dims1 (HiddenPrev context)) + j))
                        [0..<dims1 (HiddenPrev context)])
                 else coeff (Input context) i j + data (Bias context) j)"
    by blast
  from Compute_returns [OF assms U, of F] U show ?thesis
    by (elim exE conjE, intro exI conjI) (assumption, assumption, simp add: g)
qed

theorem Gate_update_reset_recurrent_term_witness:
  "forward_shapes example_context \<and> int_sized example_context \<and>
   supported (gate_activation example_context) \<and> supported (activation example_context) \<and>
   (\<exists>gate out. unactivated_gate example_context = Inr gate \<and>
      Compute test_activation_op example_context = Inr out \<and>
      coeff gate 1 3 = - 3 \<and> coeff (Gate out) 1 3 = 0)"
proof -
  from Gate_update_reset_recurrent_term [OF ex_shapes ex_sized ex_supported,
      of test_activation_op]
  obtain gate out where u: "unactivated_gate example_context = Inr gate"
    and o: "Compute test_activation_op example_context = Inr out"
    and h: "\<forall>i<2. \<forall>j<2 * 2.
      coeff gate i j =
        coeff (Input example_context) i j + data (Bias example_context) j +
        sum_list (map (\<lambda>k. coeff (HiddenPrev example_context) i k *
            data (Weight example_context) (k * (2 * 2) + j)) [0..<2]) \<and>
      coeff (Gate out) i j = act test_activation_op 3 (coeff gate i j)"
    unfolding ex_fields by blast
  have p: "coeff gate 1 3 = - 3"
    using h [rule_format, of 1 3] by (simp add: sum_upt_2 ex_fields buffer_def)
  have q: "coeff (Gate out) 1 3 = 0"
    using h [rule_format, of 1 3] unfolding p by (simp add: act_relu)
  from ex_shapes ex_sized ex_supported u o p q show ?thesis by blast
qed

text \<open>
  C3, as the claim states it, reads \<open>Weight[:, 0:2f]\<close> as the first
  \<open>2f\<close> columns of the row-major \<open>f \<times> 3f\<close> matrix, element
  \<open>(k, j)\<close> at offset \<open>k * 3f + j\<close>. On the concrete run (\<open>f
  = 2\<close>) the gate after the first \<open>gemm\<close> holds \<open>3\<close> at
  \<open>(0, 0)\<close>, where that reading gives \<open>5\<close>.
\<close>

theorem Weight_column_slice_counterexample:
  "example_unactivated = Inr (projr example_unactivated) \<and>
   coeff (projr example_unactivated) 0 0 = 3 \<and>
   coeff (Input example_context) 0 0 + data (Bias example_context) 0 +
     (coeff (HiddenPrev example_context) 0 0 * coeff (Weight example_context) 0 0 +
      coeff (HiddenPrev example_context) 0 1 * coeff (Weight example_context) 1 0) = 5 \<and>
   coeff (projr example_unactivated) 0 0 \<noteq>
     coeff (Input example_context) 0 0 + data (Bias example_context) 0 +
     (coeff (HiddenPrev example_context) 0 0 * coeff (Weight example_context) 0 0 +
      coeff (HiddenPrev example_context) 0 1 * coeff (Weight example_context) 1 0)"
proof -
  from example_unactivated_gate obtain gate where o: "example_unactivated = Inr gate"
    and g: "\<forall>i<2. \<forall>j<6. coeff gate i j =
              buffer [3, 3, 1, 7, 2, - 1, 4, - 3, 7, - 3, - 1, 3] (i * 6 + j)"
    unfolding example_unactivated_def by blast
  have w: "coeff (Weight example_context) i j =
             buffer [1, 0, 2, - 1, 0, 1, 1, 3, 2, 1, - 1, 1] (i * 6 + j)" for i j
    by (simp add: example_context_def coeff_def)
  have p: "coeff (projr example_unactivated) 0 0 = 3"
    unfolding o by (simp add: g [rule_format] buffer_def)
  have q: "coeff (Input example_context) 0 0 + data (Bias example_context) 0 +
     (coeff (HiddenPrev example_context) 0 0 * coeff (Weight example_context) 0 0 +
      coeff (HiddenPrev example_context) 0 1 * coeff (Weight example_context) 1 0) = 5"
    by (simp add: ex_fields w buffer_def)
  have e: "example_unactivated = Inr (projr example_unactivated)" unfolding o by simp
  show ?thesis unfolding p q using e by simp
qed

text \<open>
  C4. For every valid forward call (shapes as shape inference fixes them, sizes within
  \<^verbatim>\<open>int\<close>, both activation tags supported) the
  \<open>ResetHiddenPrev\<close> output is the elementwise product of the activated reset
  gate \<open>Gate[:, f:2f]\<close> and \<open>HiddenPrev\<close>, and it is this product
  that the second \<open>gemm\<close> multiplies with the candidate weight block when it
  accumulates into the candidate slice.
\<close>

theorem ResetHiddenPrev_product:
  assumes "forward_shapes (context :: 'a::comm_ring_1 ExecutionContext)"
    and "int_sized context"
    and "supported (gate_activation context)" "supported (activation context)"
  shows "\<exists>out. Compute F context = Inr out \<and>
           (\<forall>i<dims0 (Input context). \<forall>j<dims1 (HiddenPrev context).
              coeff (ResetHiddenPrev out) i j =
                slice (Gate out) (0, dims1 (HiddenPrev context))
                  (dims0 (Input context), dims1 (HiddenPrev context)) i j *
                coeff (HiddenPrev context) i j \<and>
              slice (Gate out) (0, 2 * dims1 (HiddenPrev context))
                  (dims0 (Input context), dims1 (HiddenPrev context)) i j =
                act F (activation context)
                  (coeff (Input context) i (2 * dims1 (HiddenPrev context) + j) +
                   data (Bias context) (2 * dims1 (HiddenPrev context) + j) +
                   sum_list (map (\<lambda>k.
                       slice (Gate out) (0, dims1 (HiddenPrev context))
                         (dims0 (Input context), dims1 (HiddenPrev context)) i k *
                       coeff (HiddenPrev context) i k *
                       data (Weight context)
                         (dims1 (HiddenPrev context) * dims1 (HiddenPrev context) * 2 +
                          k * dims1 (HiddenPrev context) + j))
                     [0..<dims1 (HiddenPrev context)])))"
proof -
  let ?b = "dims0 (Input context)" and ?f = "dims1 (HiddenPrev context)"
  from unactivated_gate_returns [OF assms(1) assms(2)]
  obtain gate where U: "unactivated_gate context = Inr gate"
    and g: "\<forall>i<?b. \<forall>j<3 * ?f.
              coeff gate i j =
                (if j < 2 * ?f
                 then coeff (Input context) i j + data (Bias context) j +
                      sum_list (map (\<lambda>k. coeff (HiddenPrev context) i k *
                          data (Weight context) (k * (2 * ?f) + j)) [0..<?f])
                 else coeff (Input context) i j + data (Bias context) j)"
    by blast
  from Compute_returns [OF assms U, of F]
  obtain out where C: "Compute F context = Inr out"
    and G: "\<forall>i<?b. \<forall>j<3 * ?f.
              coeff (Gate out) i j =
                (if j < 2 * ?f then act F (gate_activation context) (coeff gate i j)
                 else act F (activation context)
                   (coeff gate i j +
                    sum_list (map (\<lambda>k. coeff (ResetHiddenPrev out) i k *
                        data (Weight context) (?f * ?f * 2 + k * ?f + (j - 2 * ?f)))
                      [0..<?f])))"
    and R: "\<forall>i<?b. \<forall>j<?f.
              coeff (ResetHiddenPrev out) i j =
                coeff (Gate out) i (?f + j) * coeff (HiddenPrev context) i j"
    by blast
  have s: "sum_list (map (\<lambda>k. coeff (ResetHiddenPrev out) i k * w k) [0..<?f]) =
           sum_list (map (\<lambda>k. coeff (Gate out) i (?f + k) *
                       coeff (HiddenPrev context) i k * w k) [0..<?f])"
    if "i < ?b" for i and w :: "nat \<Rightarrow> 'a"
    by (rule sum_list_upt_cong) (simp add: R that)
  have "coeff (ResetHiddenPrev out) i j =
          slice (Gate out) (0, ?f) (?b, ?f) i j * coeff (HiddenPrev context) i j \<and>
        slice (Gate out) (0, 2 * ?f) (?b, ?f) i j =
          act F (activation context)
            (coeff (Input context) i (2 * ?f + j) + data (Bias context) (2 * ?f + j) +
             sum_list (map (\<lambda>k. slice (Gate out) (0, ?f) (?b, ?f) i k *
                 coeff (HiddenPrev context) i k *
                 data (Weight context) (?f * ?f * 2 + k * ?f + j)) [0..<?f]))"
    if "i < ?b" "j < ?f" for i j
    using that by (simp add: slice_def R G g s)
  with C show ?thesis by blast
qed

theorem ResetHiddenPrev_product_witness:
  "forward_shapes example_context \<and> int_sized example_context \<and>
   supported (gate_activation example_context) \<and> supported (activation example_context) \<and>
   (\<exists>out. Compute test_activation_op example_context = Inr out \<and>
      slice (Gate out) (0, 2) (2, 2) 1 0 = 7 \<and>
      coeff (HiddenPrev example_context) 1 0 = 3 \<and>
      coeff (ResetHiddenPrev out) 1 0 = 21)"
proof -
  from ResetHiddenPrev_product [OF ex_shapes ex_sized ex_supported, of test_activation_op]
  obtain out where o: "Compute test_activation_op example_context = Inr out"
    and h: "coeff (ResetHiddenPrev out) 1 0 =
              slice (Gate out) (0, 2) (2, 2) 1 0 * coeff (HiddenPrev example_context) 1 0"
    by (auto simp: ex_fields)
  have r: "slice (Gate out) (0, 2) (2, 2) 1 0 = 7"
    by (simp add: slice_def example_run_Inr(1) [OF o, rule_format] buffer_def)
  have p: "coeff (HiddenPrev example_context) 1 0 = 3"
    by (simp add: ex_fields buffer_def)
  have "coeff (ResetHiddenPrev out) 1 0 = 21"
    unfolding h r p by simp
  with ex_shapes ex_sized ex_supported o r p show ?thesis by blast
qed

text \<open>
  C5. When the gate activation tag or the activation tag is outside \<open>{0, 1, 2,
  3}\<close>, the forward and the backward kernel both raise
  \<^verbatim>\<open>EnforceNotMet\<close> with the message \<^verbatim>\<open>unsupported
  activation type\<close> and return no result, whatever the tensors hold, for every call
  whose sizes are within \<^verbatim>\<open>int\<close> (the forward kernel computes
  \<^verbatim>\<open>frame_size * frame_size * 2\<close> before it dispatches on the
  activation tag).
\<close>

theorem Unsupported_activation_fails:
  assumes "int_sized (context :: 'a::comm_ring_1 ExecutionContext)"
    and "gate_activation context \<notin> {0, 1, 2, 3} \<or> activation context \<notin> {0, 1, 2, 3}"
  shows "Compute F context = Inl (EnforceNotMet ''unsupported activation type'') \<and>
         GradCompute F gate_grad_mem reset_hidden_prev_grad_mem context =
           Inl (EnforceNotMet ''unsupported activation type'')"
proof -
  from assms(2)
  have "\<not> supported (gate_activation context) \<or> \<not> supported (activation context)"
    by (auto simp: supported_iff)
  then show ?thesis
    by (simp add: Compute_unsupported [OF assms(1)] GradCompute_unsupported [OF assms(1)])
qed

theorem Unsupported_activation_fails_witness:
  "int_sized (example_context\<lparr>activation := 4\<rparr>) \<and>
   activation (example_context\<lparr>activation := 4\<rparr>) \<notin> {0, 1, 2, 3} \<and>
   Compute test_activation_op (example_context\<lparr>activation := 4\<rparr>) =
     Inl (EnforceNotMet ''unsupported activation type'') \<and>
   GradCompute test_activation_op (buffer []) (buffer []) (example_context\<lparr>activation := 4\<rparr>) =
     Inl (EnforceNotMet ''unsupported activation type'') \<and>
   int_sized (example_grad_context\<lparr>gate_activation := - 1\<rparr>) \<and>
   gate_activation (example_grad_context\<lparr>gate_activation := - 1\<rparr>) \<notin> {0, 1, 2, 3} \<and>
   Compute test_activation_op (example_grad_context\<lparr>gate_activation := - 1\<rparr>) =
     Inl (EnforceNotMet ''unsupported activation type'') \<and>
   GradCompute test_activation_op (buffer []) (buffer [])
       (example_grad_context\<lparr>gate_activation := - 1\<rparr>) =
     Inl (EnforceNotMet ''unsupported activation type'')"
proof -
  have s: "int_sized (example_context\<lparr>activation := 4\<rparr>)"
    "int_sized (example_grad_context\<lparr>gate_activation := - 1\<rparr>)"
    using ex_sized exg_sized by (simp_all add: int_sized_def)
  have a: "activation (example_context\<lparr>activation := 4\<rparr>) \<notin> {0, 1, 2, 3}" by simp
  have b: "gate_activation (example_grad_context\<lparr>gate_activation := - 1\<rparr>) \<notin> {0, 1, 2, 3}"
    by simp
  from a have
    "gate_activation (example_context\<lparr>activation := 4\<rparr>) \<notin> {0, 1, 2, 3} \<or>
     activation (example_context\<lparr>activation := 4\<rparr>) \<notin> {0, 1, 2, 3}" ..
  note A = Unsupported_activation_fails [OF s(1) this,
      of test_activation_op "buffer []" "buffer []"]
  from b have
    "gate_activation (example_grad_context\<lparr>gate_activation := - 1\<rparr>) \<notin> {0, 1, 2, 3} \<or>
     activation (example_grad_context\<lparr>gate_activation := - 1\<rparr>) \<notin> {0, 1, 2, 3}" ..
  note B = Unsupported_activation_fails [OF s(2) this,
      of test_activation_op "buffer []" "buffer []"]
  from s a b A B show ?thesis by blast
qed

text \<open>
  C6. For every valid backward call (shapes as shape inference fixes them, sizes within
  \<^verbatim>\<open>int\<close>, both activation tags supported) the candidate slice
  \<open>dGate[:, 2f:3f]\<close> of the gate gradient is \<open>act_grad(activation, c, c,
  dHidden * (1 - u))\<close> elementwise, with \<open>u\<close> and \<open>c\<close> the
  update and candidate slices of the \<open>Gate\<close> input.
\<close>

theorem Candidate_gate_gradient:
  assumes "backward_shapes (context :: 'a::comm_ring_1 ExecutionContext)"
    and "int_sized context"
    and "supported (gate_activation context)" "supported (activation context)"
  shows "\<exists>res. GradCompute F gate_grad_mem reset_hidden_prev_grad_mem context = Inr res \<and>
           (\<forall>i<dims0 (Input context). \<forall>j<dims1 (HiddenPrev context).
              slice (gate_grad res) (0, 2 * dims1 (HiddenPrev context))
                  (dims0 (Input context), dims1 (HiddenPrev context)) i j =
                act_grad F (activation context)
                  (slice (Gate context) (0, 2 * dims1 (HiddenPrev context))
                     (dims0 (Input context), dims1 (HiddenPrev context)) i j)
                  (slice (Gate context) (0, 2 * dims1 (HiddenPrev context))
                     (dims0 (Input context), dims1 (HiddenPrev context)) i j)
                  (coeff (Hidden_GRAD context) i j *
                   (1 - slice (Gate context) (0, 0)
                          (dims0 (Input context), dims1 (HiddenPrev context)) i j)))"
  using GradCompute_returns [OF assms, of F gate_grad_mem reset_hidden_prev_grad_mem]
  by (elim exE conjE, intro exI conjI) (assumption, simp add: slice_def)

theorem Candidate_gate_gradient_witness:
  "backward_shapes example_grad_context \<and> int_sized example_grad_context \<and>
   supported (gate_activation example_grad_context) \<and>
   supported (activation example_grad_context) \<and>
   (\<exists>res. GradCompute test_activation_op (buffer []) (buffer []) example_grad_context = Inr res \<and>
      slice (Gate example_grad_context) (0, 4) (2, 2) 1 0 = 41 \<and>
      slice (Gate example_grad_context) (0, 0) (2, 2) 1 0 = 4 \<and>
      coeff (Hidden_GRAD example_grad_context) 1 0 = 3 \<and>
      slice (gate_grad res) (0, 4) (2, 2) 1 0 = - 9)"
proof -
  from Candidate_gate_gradient [OF exg_shapes exg_sized exg_supported,
      of test_activation_op "buffer []" "buffer []"]
  obtain res where
    o: "GradCompute test_activation_op (buffer []) (buffer []) example_grad_context = Inr res"
    and h: "slice (gate_grad res) (0, 4) (2, 2) 1 0 =
              act_grad test_activation_op 3
                (slice (Gate example_grad_context) (0, 4) (2, 2) 1 0)
                (slice (Gate example_grad_context) (0, 4) (2, 2) 1 0)
                (coeff (Hidden_GRAD example_grad_context) 1 0 *
                 (1 - slice (Gate example_grad_context) (0, 0) (2, 2) 1 0))"
    by (auto simp: exg_fields)
  have c: "slice (Gate example_grad_context) (0, 4) (2, 2) 1 0 = 41"
    and u: "slice (Gate example_grad_context) (0, 0) (2, 2) 1 0 = 4"
    and d: "coeff (Hidden_GRAD example_grad_context) 1 0 = 3"
    by (simp_all add: slice_def exg_fields buffer_def)
  have "slice (gate_grad res) (0, 4) (2, 2) 1 0 = - 9"
    unfolding h c u d by (simp add: act_grad_relu)
  with exg_shapes exg_sized exg_supported o c u d show ?thesis by blast
qed

text \<open>
  C7. For every valid backward call (shapes as shape inference fixes them, sizes within
  \<^verbatim>\<open>int\<close>, both activation tags supported) the input gradient equals
  the gate gradient in all \<open>3f\<close> columns.
\<close>

theorem Input_gradient_is_gate_gradient:
  assumes "backward_shapes (context :: 'a::comm_ring_1 ExecutionContext)"
    and "int_sized context"
    and "supported (gate_activation context)" "supported (activation context)"
  shows "\<exists>res. GradCompute F gate_grad_mem reset_hidden_prev_grad_mem context = Inr res \<and>
           (\<forall>i<dims0 (Input context). \<forall>j<3 * dims1 (HiddenPrev context).
              coeff (Input_GRAD (grad_context res)) i j = coeff (gate_grad res) i j)"
  using GradCompute_returns [OF assms, of F gate_grad_mem reset_hidden_prev_grad_mem]
  by (elim exE conjE, intro exI conjI) (assumption, simp)

theorem Input_gradient_is_gate_gradient_witness:
  "backward_shapes example_grad_context \<and> int_sized example_grad_context \<and>
   supported (gate_activation example_grad_context) \<and>
   supported (activation example_grad_context) \<and>
   (\<exists>res. GradCompute test_activation_op (buffer []) (buffer []) example_grad_context = Inr res \<and>
      coeff (gate_grad res) 1 2 = - 51 \<and>
      coeff (Input_GRAD (grad_context res)) 1 2 = - 51)"
proof -
  from Input_gradient_is_gate_gradient [OF exg_shapes exg_sized exg_supported,
      of test_activation_op "buffer []" "buffer []"]
  obtain res where
    o: "GradCompute test_activation_op (buffer []) (buffer []) example_grad_context = Inr res"
    and h: "coeff (Input_GRAD (grad_context res)) 1 2 = coeff (gate_grad res) 1 2"
    by (auto simp: exg_fields)
  have g: "coeff (gate_grad res) 1 2 = - 51"
    by (simp add: example_grad_run_Inr(1) [OF o, rule_format] buffer_def)
  with exg_shapes exg_sized exg_supported o h show ?thesis by auto
qed

text \<open>
  C8, as the code has it. For every valid backward call (shapes as shape inference fixes
  them, sizes within \<^verbatim>\<open>int\<close>, both activation tags supported) the
  gradient of the previous hidden state is \<open>dResetHiddenPrev * r + dHidden *
  u\<close> plus the product of the final \<open>dGate[:, 0:2f]\<close> with the transpose
  of the \<open>f \<times> 2f\<close> matrix that the first \<open>2f\<^sup>2\<close>
  elements of the weight buffer hold in row-major order (element \<open>(j, k)\<close> at
  offset \<open>j * 2f + k\<close>). The gate gradient in the sum is the final one: its
  reset slice is \<open>act_grad(gate_activation, r, r, dResetHiddenPrev *
  HiddenPrev)\<close>.
\<close>

theorem Hidden_prev_gradient:
  assumes "backward_shapes (context :: 'a::comm_ring_1 ExecutionContext)"
    and "int_sized context"
    and "supported (gate_activation context)" "supported (activation context)"
  shows "\<exists>res. GradCompute F gate_grad_mem reset_hidden_prev_grad_mem context = Inr res \<and>
           (\<forall>i<dims0 (Input context). \<forall>j<dims1 (HiddenPrev context).
              coeff (HiddenPrev_GRAD (grad_context res)) i j =
                coeff (reset_hidden_prev_grad res) i j *
                  slice (Gate context) (0, dims1 (HiddenPrev context))
                    (dims0 (Input context), dims1 (HiddenPrev context)) i j +
                coeff (Hidden_GRAD context) i j *
                  slice (Gate context) (0, 0)
                    (dims0 (Input context), dims1 (HiddenPrev context)) i j +
                sum_list (map (\<lambda>k. coeff (gate_grad res) i k *
                    data (Weight context) (j * (2 * dims1 (HiddenPrev context)) + k))
                  [0..<2 * dims1 (HiddenPrev context)]) \<and>
              slice (gate_grad res) (0, dims1 (HiddenPrev context))
                  (dims0 (Input context), dims1 (HiddenPrev context)) i j =
                act_grad F (gate_activation context)
                  (slice (Gate context) (0, dims1 (HiddenPrev context))
                     (dims0 (Input context), dims1 (HiddenPrev context)) i j)
                  (slice (Gate context) (0, dims1 (HiddenPrev context))
                     (dims0 (Input context), dims1 (HiddenPrev context)) i j)
                  (coeff (reset_hidden_prev_grad res) i j * coeff (HiddenPrev context) i j))"
  using GradCompute_returns [OF assms, of F gate_grad_mem reset_hidden_prev_grad_mem]
  by (elim exE conjE, intro exI conjI) (assumption, simp add: slice_def)

theorem Hidden_prev_gradient_witness:
  "backward_shapes example_grad_context \<and> int_sized example_grad_context \<and>
   supported (gate_activation example_grad_context) \<and>
   supported (activation example_grad_context) \<and>
   (\<exists>res. GradCompute test_activation_op (buffer []) (buffer []) example_grad_context = Inr res \<and>
      coeff (reset_hidden_prev_grad res) 0 1 = 4 \<and>
      coeff (gate_grad res) 0 0 = 1 \<and> coeff (gate_grad res) 0 1 = 24 \<and>
      coeff (gate_grad res) 0 2 = 4 \<and> coeff (gate_grad res) 0 3 = 8 \<and>
      coeff (HiddenPrev_GRAD (grad_context res)) 0 1 = 74)"
proof -
  from Hidden_prev_gradient [OF exg_shapes exg_sized exg_supported,
      of test_activation_op "buffer []" "buffer []"]
  obtain res where
    o: "GradCompute test_activation_op (buffer []) (buffer []) example_grad_context = Inr res"
    and h: "coeff (HiddenPrev_GRAD (grad_context res)) 0 1 =
              coeff (reset_hidden_prev_grad res) 0 1 *
                slice (Gate example_grad_context) (0, 2) (2, 2) 0 1 +
              coeff (Hidden_GRAD example_grad_context) 0 1 *
                slice (Gate example_grad_context) (0, 0) (2, 2) 0 1 +
              sum_list (map (\<lambda>k. coeff (gate_grad res) 0 k *
                  data (Weight example_grad_context) (1 * (2 * 2) + k)) [0..<2 * 2])"
    by (auto simp: exg_fields)
  have r: "coeff (reset_hidden_prev_grad res) 0 1 = 4"
    by (simp add: example_grad_run_Inr(2) [OF o, rule_format] buffer_def)
  have g: "coeff (gate_grad res) 0 0 = 1" "coeff (gate_grad res) 0 1 = 24"
    "coeff (gate_grad res) 0 2 = 4" "coeff (gate_grad res) 0 3 = 8"
    by (simp_all add: example_grad_run_Inr(1) [OF o, rule_format] buffer_def)
  have "coeff (HiddenPrev_GRAD (grad_context res)) 0 1 = 74"
    unfolding h using r g by (simp add: sum_upt_4 slice_def exg_fields buffer_def)
  with exg_shapes exg_sized exg_supported o r g show ?thesis by blast
qed

text \<open>
  C8, as the claim states it, reads \<open>Weight[:, 0:2f]\<close> as the first
  \<open>2f\<close> columns of the row-major \<open>f \<times> 3f\<close> matrix. On the
  concrete run the kernel leaves \<open>74\<close> at \<open>(0, 1)\<close> of the gradient
  of the previous hidden state, where that reading gives \<open>111\<close>.
\<close>

theorem Weight_transposed_slice_counterexample:
  "example_grad_run = Inr (projr example_grad_run) \<and>
   coeff (HiddenPrev_GRAD (grad_context (projr example_grad_run))) 0 1 = 74 \<and>
   coeff (reset_hidden_prev_grad (projr example_grad_run)) 0 1 *
     slice (Gate example_grad_context) (0, 2) (2, 2) 0 1 +
   coeff (Hidden_GRAD example_grad_context) 0 1 *
     slice (Gate example_grad_context) (0, 0) (2, 2) 0 1 +
   (coeff (gate_grad (projr example_grad_run)) 0 0 * coeff (Weight example_grad_context) 1 0 +
    coeff (gate_grad (projr example_grad_run)) 0 1 * coeff (Weight example_grad_context) 1 1 +
    coeff (gate_grad (projr example_grad_run)) 0 2 * coeff (Weight example_grad_context) 1 2 +
    coeff (gate_grad (projr example_grad_run)) 0 3 * coeff (Weight example_grad_context) 1 3) =
     111 \<and>
   coeff (HiddenPrev_GRAD (grad_context (projr example_grad_run))) 0 1 \<noteq>
   coeff (reset_hidden_prev_grad (projr example_grad_run)) 0 1 *
     slice (Gate example_grad_context) (0, 2) (2, 2) 0 1 +
   coeff (Hidden_GRAD example_grad_context) 0 1 *
     slice (Gate example_grad_context) (0, 0) (2, 2) 0 1 +
   (coeff (gate_grad (projr example_grad_run)) 0 0 * coeff (Weight example_grad_context) 1 0 +
    coeff (gate_grad (projr example_grad_run)) 0 1 * coeff (Weight example_grad_context) 1 1 +
    coeff (gate_grad (projr example_grad_run)) 0 2 * coeff (Weight example_grad_context) 1 2 +
    coeff (gate_grad (projr example_grad_run)) 0 3 * coeff (Weight example_grad_context) 1 3)"
proof -
  from example_grad_run_values obtain res where o: "example_grad_run = Inr res"
    and g: "\<forall>i<2. \<forall>j<6. coeff (gate_grad res) i j =
              buffer [1, 24, 4, 8, 0, 4, - 114, 0, - 51, 0, - 9, 1] (i * 6 + j)"
    and r: "\<forall>i<2. \<forall>j<2. coeff (reset_hidden_prev_grad res) i j =
              buffer [4, 4, - 17, 10] (i * 2 + j)"
    and h: "\<forall>i<2. \<forall>j<2. coeff (HiddenPrev_GRAD (grad_context res)) i j =
              buffer [8, 74, - 323, - 51] (i * 2 + j)"
    by blast
  have e: "example_grad_run = Inr (projr example_grad_run)" unfolding o by simp
  have p: "projr example_grad_run = res" unfolding o by simp
  have a: "coeff (HiddenPrev_GRAD (grad_context (projr example_grad_run))) 0 1 = 74"
    unfolding p by (simp add: h [rule_format] buffer_def)
  have b: "coeff (reset_hidden_prev_grad (projr example_grad_run)) 0 1 *
     slice (Gate example_grad_context) (0, 2) (2, 2) 0 1 +
   coeff (Hidden_GRAD example_grad_context) 0 1 *
     slice (Gate example_grad_context) (0, 0) (2, 2) 0 1 +
   (coeff (gate_grad (projr example_grad_run)) 0 0 * coeff (Weight example_grad_context) 1 0 +
    coeff (gate_grad (projr example_grad_run)) 0 1 * coeff (Weight example_grad_context) 1 1 +
    coeff (gate_grad (projr example_grad_run)) 0 2 * coeff (Weight example_grad_context) 1 2 +
    coeff (gate_grad (projr example_grad_run)) 0 3 * coeff (Weight example_grad_context) 1 3) =
     111"
    unfolding p by (simp add: g [rule_format] r [rule_format] slice_def exg_fields buffer_def)
  show ?thesis unfolding a b using e by simp
qed

text \<open>
  C9. For every valid backward call (shapes as shape inference fixes them, sizes within
  \<^verbatim>\<open>int\<close>, both activation tags supported) the bias gradient is the
  column sum of the gate gradient over the batch: for each of the \<open>3f\<close> columns
  \<open>j\<close>, \<open>dBias[0, j]\<close> is the sum of \<open>dGate[i, j]\<close>
  over the batch rows \<open>i\<close>.
\<close>

theorem Bias_gradient_column_sum:
  assumes "backward_shapes (context :: 'a::comm_ring_1 ExecutionContext)"
    and "int_sized context"
    and "supported (gate_activation context)" "supported (activation context)"
  shows "\<exists>res. GradCompute F gate_grad_mem reset_hidden_prev_grad_mem context = Inr res \<and>
           (\<forall>j<3 * dims1 (HiddenPrev context).
              coeff (Bias_GRAD (grad_context res)) 0 j =
                sum_list (map (\<lambda>i. coeff (gate_grad res) i j) [0..<dims0 (Input context)]))"
  using GradCompute_returns [OF assms, of F gate_grad_mem reset_hidden_prev_grad_mem]
  by (elim exE conjE, intro exI conjI) (assumption, simp)

theorem Bias_gradient_column_sum_witness:
  "backward_shapes example_grad_context \<and> int_sized example_grad_context \<and>
   supported (gate_activation example_grad_context) \<and>
   supported (activation example_grad_context) \<and>
   (\<exists>res. GradCompute test_activation_op (buffer []) (buffer []) example_grad_context = Inr res \<and>
      coeff (gate_grad res) 0 0 = 1 \<and> coeff (gate_grad res) 1 0 = - 114 \<and>
      coeff (Bias_GRAD (grad_context res)) 0 0 = - 113)"
proof -
  from Bias_gradient_column_sum [OF exg_shapes exg_sized exg_supported,
      of test_activation_op "buffer []" "buffer []"]
  obtain res where
    o: "GradCompute test_activation_op (buffer []) (buffer []) example_grad_context = Inr res"
    and h: "coeff (Bias_GRAD (grad_context res)) 0 0 =
              sum_list (map (\<lambda>i. coeff (gate_grad res) i 0) [0..<2])"
    by (auto simp: exg_fields)
  have g: "coeff (gate_grad res) 0 0 = 1" "coeff (gate_grad res) 1 0 = - 114"
    by (simp_all add: example_grad_run_Inr(1) [OF o, rule_format] buffer_def)
  have "coeff (Bias_GRAD (grad_context res)) 0 0 = - 113"
    unfolding h using g by (simp add: sum_upt_2)
  with exg_shapes exg_sized exg_supported o g show ?thesis by blast
qed

text \<open>
  C10. The backward kernel reads \<open>Input\<close> only for its dimensions: replacing
  the \<open>Input\<close> tensor by any tensor of the same shape leaves the four gradient
  outputs (or the error) of the run unchanged.
\<close>

theorem Gradients_independent_of_Input_values:
  assumes "dims0 t = dims0 (Input context)" "dims1 t = dims1 (Input context)"
  shows "gradient_outputs
           (GradCompute F gate_grad_mem reset_hidden_prev_grad_mem (context\<lparr>Input := t\<rparr>)) =
         gradient_outputs
           (GradCompute F gate_grad_mem reset_hidden_prev_grad_mem context)"
  unfolding GradCompute_def gradient_outputs_def Let_def
  using assms by (simp split: sum.splits)

theorem Gradients_independent_of_Input_values_witness:
  "dims0 example_other_input = dims0 (Input example_grad_context) \<and>
   dims1 example_other_input = dims1 (Input example_grad_context) \<and>
   data example_other_input 0 \<noteq> data (Input example_grad_context) 0 \<and>
   gradient_outputs
     (GradCompute test_activation_op (buffer []) (buffer [])
        (example_grad_context\<lparr>Input := example_other_input\<rparr>)) =
   gradient_outputs
     (GradCompute test_activation_op (buffer []) (buffer []) example_grad_context)"
proof -
  have d: "dims0 example_other_input = dims0 (Input example_grad_context)"
    "dims1 example_other_input = dims1 (Input example_grad_context)"
    by (simp_all add: example_other_input_def example_grad_context_def example_context_def)
  have n: "data example_other_input 0 \<noteq> data (Input example_grad_context) 0"
    by (simp add: example_other_input_def example_grad_context_def example_context_def
        buffer_def)
  from d n Gradients_independent_of_Input_values [OF d,
      of test_activation_op "buffer []" "buffer []"]
  show ?thesis by blast
qed

end
